theory Spec2Isabelle
  imports Main
begin

section \<open>Python built-ins the notebook code relies on\<close>

text \<open>
  The notebooks of this repository are glue code around the GRASS tools. The authored
  Python is: the set-up cell that extends \<^verbatim>\<open>sys.path\<close>, the cells that invoke tools, and
  the two versions of the script \<^verbatim>\<open>yourlastname.py\<close> with the functions
  \<^verbatim>\<open>get_coordinates\<close> and \<^verbatim>\<open>myanalysis\<close>.

  Strings are \<open>string\<close>, so a character is one of the 256 values of \<open>char\<close>; code
  points above 255 are outside the model. Exceptions are values: a computation returns
  \<open>exn + 'a\<close>, with \<open>Inl\<close> for a raised exception.
\<close>

datatype exn =
    CalledProcessError string
  | FileNotFoundError string
  | CalledModuleError string
  | ModuleNotFoundError string
  | ValueError string
  | KeyError string

text \<open>
  \<^verbatim>\<open>str.splitlines()\<close>: a line ends at a line boundary; \<^verbatim>\<open>\r\n\<close> is one boundary; the
  empty string has no lines and a final boundary opens no further line. The boundaries
  among the first 256 code points are \<^verbatim>\<open>\n \v \f \r \x1c \x1d \x1e \x85\<close>.
\<close>

definition linebreak :: "char \<Rightarrow> bool" where
  "linebreak c \<longleftrightarrow> (of_char c :: nat) \<in> {10, 11, 12, 13, 28, 29, 30, 133}"

fun splitlines_from :: "string \<Rightarrow> string \<Rightarrow> string list" where
  "splitlines_from cur [] = (if cur = [] then [] else [cur])"
| "splitlines_from cur (c # cs) =
     (if linebreak c then
        cur # (case cs of
                 d # ds \<Rightarrow> if c = CHR 0x0D \<and> d = CHR 0x0A then splitlines_from [] ds
                           else splitlines_from [] cs
               | [] \<Rightarrow> splitlines_from [] cs)
      else splitlines_from (cur @ [c]) cs)"

definition splitlines :: "string \<Rightarrow> string list" where
  "splitlines text = splitlines_from [] text"

text \<open>
  \<^verbatim>\<open>str.split(sep)\<close> with a one-character separator: every occurrence of the separator
  ends a field, so the result is never empty and \<^verbatim>\<open>"".split(",")\<close> is \<^verbatim>\<open>[""]\<close>.
\<close>

fun split_from :: "char \<Rightarrow> string \<Rightarrow> string \<Rightarrow> string list" where
  "split_from sep cur [] = [cur]"
| "split_from sep cur (c # cs) =
     (if c = sep then cur # split_from sep [] cs else split_from sep (cur @ [c]) cs)"

definition split :: "char \<Rightarrow> string \<Rightarrow> string list" where
  "split sep s = split_from sep [] s"

text \<open>
  \<^verbatim>\<open>float(s)\<close> is a built-in: the model takes it as a parameter \<open>float\<close> that returns
  \<open>None\<close> where Python raises \<^verbatim>\<open>ValueError\<close>, over any type \<open>'f\<close> of float values.
\<close>

definition pyfloat :: "(string \<Rightarrow> 'f option) \<Rightarrow> string \<Rightarrow> exn + 'f" where
  "pyfloat float s = (case float s of None \<Rightarrow> Inl (ValueError s) | Some v \<Rightarrow> Inr v)"

text \<open>A list comprehension evaluates its elements in order; the first exception ends it.\<close>

fun comprehension :: "('a \<Rightarrow> exn + 'b) \<Rightarrow> 'a list \<Rightarrow> exn + 'b list" where
  "comprehension f [] = Inr []"
| "comprehension f (x # xs) =
     (case f x of
        Inl e \<Rightarrow> Inl e
      | Inr y \<Rightarrow> (case comprehension f xs of Inl e \<Rightarrow> Inl e | Inr ys \<Rightarrow> Inr (y # ys)))"

section \<open>The external engine and the wrapper library\<close>

text \<open>
  An invocation names the way it is made, the tool and its keyword arguments. The GRASS
  engine is not part of the repository: it is a parameter \<open>eng\<close> that maps an invocation
  and the state \<open>'w\<close> of the engine (its database, region and mask) to the text the tool
  prints, or to an exception, and to the new state. A session holds the state of the
  engine and, for stating properties, two records of what happened: the invocations
  made, in order, and the exceptions that calls of the wrapper library raised.
\<close>

datatype api = CheckOutput | Shell | RunCommand | ReadCommand | ParseCommand | ListStrings | Jupyter

datatype 'f arg =
    Str string
  | Num int
  | Strs "string list"
  | Floats "'f list"
  | Coords "'f list list"

record 'f invocation =
  api :: api
  tool :: string
  kwargs :: "(string \<times> 'f arg) list"

type_synonym ('w, 'f) engine = "'f invocation \<Rightarrow> 'w \<Rightarrow> (exn + string) \<times> 'w"

record ('w, 'f) session =
  world :: 'w
  log :: "'f invocation list"
  raised :: "exn list"

definition invoke ::
  "('w, 'f) engine \<Rightarrow> 'f invocation \<Rightarrow> ('w, 'f) session \<Rightarrow> (exn + string) \<times> ('w, 'f) session"
where
  "invoke eng call s =
     (case eng call (world s) of
        (Inl e, w') \<Rightarrow>
          (Inl e, \<lparr>world = w', log = log s @ [call],
                   raised = (if api call = Shell then raised s else raised s @ [e])\<rparr>)
      | (Inr out, w') \<Rightarrow> (Inr out, \<lparr>world = w', log = log s @ [call], raised = raised s\<rparr>))"

definition run_command ::
  "('w, 'f) engine \<Rightarrow> string \<Rightarrow> (string \<times> 'f arg) list \<Rightarrow> ('w, 'f) session
     \<Rightarrow> (exn + unit) \<times> ('w, 'f) session"
where
  "run_command eng t kw s =
     (case invoke eng \<lparr>api = RunCommand, tool = t, kwargs = kw\<rparr> s of
        (Inl e, s') \<Rightarrow> (Inl e, s')
      | (Inr out, s') \<Rightarrow> (Inr (), s'))"

definition read_command ::
  "('w, 'f) engine \<Rightarrow> string \<Rightarrow> (string \<times> 'f arg) list \<Rightarrow> ('w, 'f) session
     \<Rightarrow> (exn + string) \<times> ('w, 'f) session"
where
  "read_command eng t kw s = invoke eng \<lparr>api = ReadCommand, tool = t, kwargs = kw\<rparr> s"

section \<open>The scripts written by the notebook\<close>

text \<open>
  First version of \<^verbatim>\<open>yourlastname.py\<close>:
  \<^verbatim>\<open>
  def myanalysis(elevation):
      gs.run_command("r.slope.aspect", elevation=elevation, pcurvature="pcurvature")
  \<close>
\<close>

definition r_slope_aspect :: "string \<Rightarrow> 'f invocation" where
  "r_slope_aspect elevation =
     \<lparr>api = RunCommand, tool = ''r.slope.aspect'',
      kwargs = [(''elevation'', Str elevation), (''pcurvature'', Str ''pcurvature'')]\<rparr>"

definition myanalysis_pcurvature ::
  "('w, 'f) engine \<Rightarrow> string \<Rightarrow> ('w, 'f) session \<Rightarrow> (exn + unit) \<times> ('w, 'f) session"
where
  "myanalysis_pcurvature eng elevation s =
     run_command eng ''r.slope.aspect''
       [(''elevation'', Str elevation), (''pcurvature'', Str ''pcurvature'')] s"

text \<open>
  Second version:
  \<^verbatim>\<open>
  def get_coordinates(points):
      data = gs.read_command("v.out.ascii", input=points, separator="comma").splitlines()
      return [[float(coor) for coor in point.split(",")[:2]] for point in data]

  def myanalysis(elevation, points):
      coordinates = get_coordinates(points)
      if coordinates:
          gs.run_command("r.drain", input=elevation, output="drain",
                         drain="drain_vector", start_coordinates=coordinates)
  \<close>
\<close>

definition v_out_ascii :: "string \<Rightarrow> 'f invocation" where
  "v_out_ascii points =
     \<lparr>api = ReadCommand, tool = ''v.out.ascii'',
      kwargs = [(''input'', Str points), (''separator'', Str ''comma'')]\<rparr>"

definition r_drain :: "string \<Rightarrow> 'f list list \<Rightarrow> 'f invocation" where
  "r_drain elevation coordinates =
     \<lparr>api = RunCommand, tool = ''r.drain'',
      kwargs = [(''input'', Str elevation), (''output'', Str ''drain''),
                (''drain'', Str ''drain_vector''), (''start_coordinates'', Coords coordinates)]\<rparr>"

definition point_coordinates :: "(string \<Rightarrow> 'f option) \<Rightarrow> string \<Rightarrow> exn + 'f list" where
  "point_coordinates float point = comprehension (pyfloat float) (take 2 (split CHR '','' point))"

definition get_coordinates ::
  "(string \<Rightarrow> 'f option) \<Rightarrow> ('w, 'f) engine \<Rightarrow> string \<Rightarrow> ('w, 'f) session
     \<Rightarrow> (exn + 'f list list) \<times> ('w, 'f) session"
where
  "get_coordinates float eng points s =
     (case read_command eng ''v.out.ascii''
             [(''input'', Str points), (''separator'', Str ''comma'')] s of
        (Inl e, s') \<Rightarrow> (Inl e, s')
      | (Inr out, s') \<Rightarrow> (comprehension (point_coordinates float) (splitlines out), s'))"

definition myanalysis ::
  "(string \<Rightarrow> 'f option) \<Rightarrow> ('w, 'f) engine \<Rightarrow> string \<Rightarrow> string \<Rightarrow> ('w, 'f) session
     \<Rightarrow> (exn + unit) \<times> ('w, 'f) session"
where
  "myanalysis float eng elevation points s =
     (case get_coordinates float eng points s of
        (Inl e, s') \<Rightarrow> (Inl e, s')
      | (Inr coordinates, s') \<Rightarrow>
          if coordinates \<noteq> [] then
            run_command eng ''r.drain''
              [(''input'', Str elevation), (''output'', Str ''drain''),
               (''drain'', Str ''drain_vector''), (''start_coordinates'', Coords coordinates)] s'
          else (Inr (), s'))"

text \<open>
  The script's entry point:
  \<^verbatim>\<open>
  if __name__ == "__main__":
      elevation = "elevation"
      points = "lagoon_points"
      myanalysis(elevation=elevation, points=points)
  \<close>
\<close>

definition script_main ::
  "(string \<Rightarrow> 'f option) \<Rightarrow> ('w, 'f) engine \<Rightarrow> ('w, 'f) session \<Rightarrow> (exn + unit) \<times> ('w, 'f) session"
where
  "script_main float eng s = myanalysis float eng ''elevation'' ''lagoon_points'' s"

section \<open>The set-up cells\<close>

text \<open>
  \<^verbatim>\<open>
  sys.path.append(
      subprocess.check_output(["grass", "--config", "python_path"], text=True).strip()
  )
  \<close>
  \<^verbatim>\<open>str.strip()\<close> removes white space at both ends; the white space among the first 256
  code points is \<^verbatim>\<open>\t \n \v \f \r \x1c \x1d \x1e \x1f\<close>, the space, \<^verbatim>\<open>\x85\<close> and
  \<^verbatim>\<open>\xa0\<close>. The subprocess is the parameter \<open>check_output\<close>; the interpreter's
  module search path is passed in and returned.
\<close>

definition isspace :: "char \<Rightarrow> bool" where
  "isspace c \<longleftrightarrow> (of_char c :: nat) \<in> {9, 10, 11, 12, 13, 28, 29, 30, 31, 32, 133, 160}"

definition strip :: "string \<Rightarrow> string" where
  "strip s = rev (dropWhile isspace (rev (dropWhile isspace s)))"

definition path_cell ::
  "(string list \<Rightarrow> exn + string) \<Rightarrow> string list \<Rightarrow> (exn + unit) \<times> string list"
where
  "path_cell check_output sys_path =
     (case check_output [''grass'', ''--config'', ''python_path''] of
        Inl e \<Rightarrow> (Inl e, sys_path)
      | Inr out \<Rightarrow> (Inr (), sys_path @ [strip out]))"

text \<open>
  \<^verbatim>\<open>
  import grass.script as gs
  import grass.jupyter as gj
  \<close>
  The import searches the entries of \<^verbatim>\<open>sys.path\<close>; \<open>has_grass\<close> says which directories
  hold the package.
\<close>

definition import_cell :: "(string \<Rightarrow> bool) \<Rightarrow> string list \<Rightarrow> exn + unit" where
  "import_cell has_grass sys_path =
     (if list_ex has_grass sys_path then Inr () else Inl (ModuleNotFoundError ''grass''))"

section \<open>Cells that invoke tools\<close>

text \<open>
  A cell is a sequence of invocations. A wrapper-library call that fails raises, and the
  exception ends the cell; a \<^verbatim>\<open>!\<close> shell line prints what the tool prints and raises
  nothing, whatever the tool's exit status.
\<close>

definition run_call ::
  "('w, 'f) engine \<Rightarrow> 'f invocation \<Rightarrow> ('w, 'f) session \<Rightarrow> (exn + unit) \<times> ('w, 'f) session"
where
  "run_call eng call s =
     (case invoke eng call s of
        (Inl e, s') \<Rightarrow> if api call = Shell then (Inr (), s') else (Inl e, s')
      | (Inr out, s') \<Rightarrow> (Inr (), s'))"

fun run_all ::
  "('w, 'f) engine \<Rightarrow> 'f invocation list \<Rightarrow> ('w, 'f) session \<Rightarrow> (exn + unit) \<times> ('w, 'f) session"
where
  "run_all eng [] s = (Inr (), s)"
| "run_all eng (call # calls) s =
     (case run_call eng call s of
        (Inl e, s') \<Rightarrow> (Inl e, s')
      | (Inr u, s') \<Rightarrow> run_all eng calls s')"



text \<open>
  The cell that registers the time series:
  \<^verbatim>\<open>
  gs.run_command("t.create", output="depth", temporaltype="relative",
                 title="Overland flow depth", description="Overland flow depth")
  maps = gs.list_strings(type="raster", pattern="depth*")
  gs.run_command("t.register", input="depth", maps=maps)
  \<close>
  \<^verbatim>\<open>gs.list_strings\<close> belongs to the wrapper library: it asks the engine for a listing
  and decodes it into names; the decoding is the parameter \<open>names_of\<close>.
\<close>

definition t_create :: "'f invocation" where
  "t_create =
     \<lparr>api = RunCommand, tool = ''t.create'',
      kwargs = [(''output'', Str ''depth''), (''temporaltype'', Str ''relative''),
                (''title'', Str ''Overland flow depth''),
                (''description'', Str ''Overland flow depth'')]\<rparr>"

definition list_depth :: "'f invocation" where
  "list_depth =
     \<lparr>api = ListStrings, tool = ''g.list'',
      kwargs = [(''type'', Str ''raster''), (''pattern'', Str ''depth*'')]\<rparr>"

definition t_register :: "string list \<Rightarrow> 'f invocation" where
  "t_register maps =
     \<lparr>api = RunCommand, tool = ''t.register'',
      kwargs = [(''input'', Str ''depth''), (''maps'', Strs maps)]\<rparr>"

definition list_strings ::
  "(string \<Rightarrow> string list) \<Rightarrow> ('w, 'f) engine \<Rightarrow> (string \<times> 'f arg) list \<Rightarrow> ('w, 'f) session
     \<Rightarrow> (exn + string list) \<times> ('w, 'f) session"
where
  "list_strings names_of eng kw s =
     (case invoke eng \<lparr>api = ListStrings, tool = ''g.list'', kwargs = kw\<rparr> s of
        (Inl e, s') \<Rightarrow> (Inl e, s')
      | (Inr out, s') \<Rightarrow> (Inr (names_of out), s'))"

definition register_cell ::
  "(string \<Rightarrow> string list) \<Rightarrow> ('w, 'f) engine \<Rightarrow> ('w, 'f) session
     \<Rightarrow> (exn + unit) \<times> ('w, 'f) session"
where
  "register_cell names_of eng s =
     (case run_command eng ''t.create''
             [(''output'', Str ''depth''), (''temporaltype'', Str ''relative''),
              (''title'', Str ''Overland flow depth''),
              (''description'', Str ''Overland flow depth'')] s of
        (Inl e, s1) \<Rightarrow> (Inl e, s1)
      | (Inr u, s1) \<Rightarrow>
          (case list_strings names_of eng
                  [(''type'', Str ''raster''), (''pattern'', Str ''depth*'')] s1 of
             (Inl e, s2) \<Rightarrow> (Inl e, s2)
           | (Inr maps, s2) \<Rightarrow>
               run_command eng ''t.register'' [(''input'', Str ''depth''), (''maps'', Strs maps)] s2))"

section \<open>The notebooks as sequences of invocations\<close>

definition sh :: "string \<Rightarrow> (string \<times> 'f arg) list \<Rightarrow> 'f invocation" where
  "sh t kw = \<lparr>api = Shell, tool = t, kwargs = kw\<rparr>"

definition gs_run :: "string \<Rightarrow> (string \<times> 'f arg) list \<Rightarrow> 'f invocation" where
  "gs_run t kw = \<lparr>api = RunCommand, tool = t, kwargs = kw\<rparr>"

definition gs_parse :: "string \<Rightarrow> (string \<times> 'f arg) list \<Rightarrow> 'f invocation" where
  "gs_parse t kw = \<lparr>api = ParseCommand, tool = t, kwargs = kw\<rparr>"

definition gj :: "string \<Rightarrow> (string \<times> 'f arg) list \<Rightarrow> 'f invocation" where
  "gj t kw = \<lparr>api = Jupyter, tool = t, kwargs = kw\<rparr>"

text \<open>
  \<^verbatim>\<open>01_Getting_Started.ipynb\<close>, code cell by code cell. A positional argument has the
  empty key; a method \<^verbatim>\<open>d_rast\<close> of a \<^verbatim>\<open>gj.Map\<close> is the tool \<^verbatim>\<open>d.rast\<close>.
\<close>

definition getting_started :: "'f invocation list" where
  "getting_started =
   [\<lparr>api = CheckOutput, tool = ''grass'', kwargs = [(''--config'', Str ''python_path'')]\<rparr>,
    gs_run ''create_project'' [('''', Str ''nc-swine''), (''epsg'', Num 3358), (''overwrite'', Str ''True'')],
    gj ''init'' [('''', Str ''./nc-swine/PERMANENT'')],
    sh ''g.version'' [],
    sh ''g.list'' [(''type'', Str ''all'')],
    sh ''g.region'' [(''flags'', Str ''p'')],
    sh ''v.import'' [(''input'', Str ''./lagoons.gpkg''), (''output'', Str ''lagoons'')],
    sh ''g.region'' [(''flags'', Str ''a''), (''vector'', Str ''lagoons''), (''res'', Num 10)],
    sh ''g.region'' [(''grow'', Num 200), (''flags'', Str ''p'')],
    sh ''g.list'' [(''type'', Str ''all'')],
    sh ''g.extension'' [('''', Str ''r.in.usgs'')],
    sh ''r.in.usgs'' [(''product'', Str ''ned''), (''ned_dataset'', Str ''ned19sec''),
                      (''output_name'', Str ''elevation'')],
    sh ''g.list'' [(''type'', Str ''all'')],
    sh ''r.in.wms''
       [(''url'', Str ''https://imagery.nationalmap.gov/arcgis/services/USGSNAIPPlus/ImageServer/WMSServer''),
        (''out'', Str ''ortho''), (''layer'', Str ''USGSNAIPPlus'')],
    sh ''g.search.modules'' [(''keyword'', Str ''zonal'')],
    sh ''r.univar'' [(''flags'', Str ''-help'')],
    gs_run ''g.list'' [(''type'', Str ''raster'')],
    gj ''d.rast'' [(''map'', Str ''elevation'')],
    gj ''d.barscale'' [(''bgcolor'', Str ''none'')],
    gj ''d.legend'' [(''raster'', Str ''elevation'')],
    gj ''add_raster'' [('''', Str ''ortho''), (''opacity'', Str ''0.6'')],
    gj ''add_vector'' [('''', Str ''lagoons'')],
    gj ''add_layer_control'' [],
    gs_run ''r.relief'' [(''input'', Str ''elevation''), (''output'', Str ''relief'')],
    gj ''d.shade'' [(''color'', Str ''elevation''), (''shade'', Str ''relief''), (''brighten'', Num 50)],
    gj ''d.vect'' [(''map'', Str ''lagoons''), (''color'', Str ''none''), (''fill_color'', Str ''blue'')],
    gj ''d.barscale'' [(''bgcolor'', Str ''none'')]]"

text \<open>
  \<^verbatim>\<open>.ipynb_checkpoints/Getting_Started-checkpoint.ipynb\<close>, in four parts: the cells before
  the mask is set, the cell that sets it, the cells up to its removal, and the rest. Two
  values are only known when the cells run: the coordinates \<open>xy\<close> read from the data
  frame and the names \<open>maps\<close> that \<^verbatim>\<open>gs.list_strings\<close> returns. The cell that calls
  \<^verbatim>\<open>r.hand\<close> does not parse (a comma is missing after \<^verbatim>\<open>inundation_strds="inundation"\<close>),
  so it invokes nothing. The two \<^verbatim>\<open>%%writefile yourlastname.py\<close> cells only write the
  script to a file, and the two cells \<^verbatim>\<open>%%python yourlastname.py\<close> that follow them have
  no body: IPython refuses a cell magic without a body with a \<^verbatim>\<open>UsageError\<close>, so the
  notebook never runs the scripts and these four cells invoke nothing.
\<close>

definition r_water_outlet :: "'f list \<Rightarrow> 'f invocation" where
  "r_water_outlet xy =
     gs_run ''r.water.outlet''
       [(''input'', Str ''direction''), (''output'', Str ''basin_15''), (''coordinates'', Floats xy)]"

definition v_extract :: "'f invocation" where
  "v_extract =
     gs_run ''v.extract''
       [(''input'', Str ''streams''), (''output'', Str ''stream_points''), (''type'', Str ''point''),
        (''where'', Str ''x IS NOT NULL'')]"

definition before_mask :: "'f list \<Rightarrow> 'f invocation list" where
  "before_mask xy =
   [\<lparr>api = CheckOutput, tool = ''grass'', kwargs = [(''--config'', Str ''python_path'')]\<rparr>,
    sh ''grass'' [(''flags'', Str ''e''), (''c'', Str ''EPSG:3358''),
                  ('''', Str ''$HOME/csdms-grass-2025'')],
    gj ''init'' [('''', Str ''./csdms-grass-2025/PERMANENT'')],
    sh ''g.version'' [],
    sh ''g.list'' [(''type'', Str ''all'')],
    sh ''g.region'' [(''flags'', Str ''p'')],
    sh ''v.import'' [(''input'', Str ''./lagoons.gpkg''), (''output'', Str ''lagoons'')],
    sh ''g.region'' [(''flags'', Str ''a''), (''vector'', Str ''lagoons''), (''res'', Num 10)],
    sh ''g.region'' [(''grow'', Num 200)],
    sh ''g.extension'' [('''', Str ''r.in.usgs'')],
    sh ''r.in.usgs'' [(''product'', Str ''ned''), (''ned_dataset'', Str ''ned19sec''),
                      (''output_name'', Str ''elevation''), (''flags'', Str ''-verbose'')],
    sh ''r.in.wms''
       [(''url'', Str ''https://imagery.nationalmap.gov/arcgis/services/USGSNAIPPlus/ImageServer/WMSServer''),
        (''out'', Str ''ortho''), (''layer'', Str ''USGSNAIPPlus'')],
    sh ''g.list'' [(''type'', Str ''all'')],
    sh ''g.search.modules'' [(''keyword'', Str ''zonal'')],
    sh ''r.univar'' [(''flags'', Str ''-help'')],
    gs_run ''g.list'' [(''type'', Str ''raster'')],
    gj ''d.rast'' [(''map'', Str ''ortho'')],
    gj ''d.barscale'' [(''bgcolor'', Str ''none'')],
    gj ''add_raster'' [('''', Str ''elevation''), (''opacity'', Str ''0.7'')],
    gj ''add_vector'' [('''', Str ''lagoons'')],
    gs_run ''r.watershed'' [(''elevation'', Str ''elevation''), (''accumulation'', Str ''accumulation''),
                            (''drainage'', Str ''drainage'')],
    gj ''add_raster'' [('''', Str ''accumulation''), (''opacity'', Str ''0.5'')],
    gs_run ''r.path'' [(''input'', Str ''drainage''), (''vector_path'', Str ''drain''),
                       (''start_points'', Str ''lagoon_points'')],
    gj ''d.shade'' [(''color'', Str ''ortho''), (''shade'', Str ''relief''), (''brighten'', Num 50)],
    gj ''d.vect'' [(''map'', Str ''drain''), (''width'', Num 1), (''color'', Str ''blue'')],
    gs_run ''g.extension'' [(''extension'', Str ''r.hand'')],
    gj ''d.rast'' [(''map'', Str ''relief'')],
    gj ''d.vect'' [(''map'', Str ''lagoons''), (''fill_color'', Str ''none'')],
    gj ''add_raster_series'' [('''', Str ''inundation'')],
    v_extract,
    gj ''d.rast'' [(''map'', Str ''relief'')],
    gj ''d.vect'' [(''map'', Str ''streams''), (''color'', Str ''blue'')],
    gj ''d.vect'' [(''map'', Str ''stream_points''), (''display'', Str ''cat''),
                   (''label_color'', Str ''white''), (''label_size'', Num 10)],
    gs_run ''v.to.db'' [(''map'', Str ''stream_points''), (''option'', Str ''coor''),
                        (''type'', Str ''point''), (''columns'', Str ''x,y'')],
    gs_parse ''v.db.select'' [(''map'', Str ''stream_points''), (''columns'', Str ''cat,x,y''),
                              (''format'', Str ''json'')],
    r_water_outlet xy,
    gj ''d.shade'' [(''color'', Str ''basin_15''), (''shade'', Str ''relief''), (''brighten'', Num 50)],
    gs_run ''g.region'' [(''zoom'', Str ''basin_13''), (''res'', Num 6)]]"

definition r_mask :: "'f invocation" where
  "r_mask = gs_run ''r.mask'' [(''raster'', Str ''basin_15'')]"

definition r_sim_water :: "'f invocation" where
  "r_sim_water =
     gs_run ''r.sim.water''
       [(''elevation'', Str ''elevation''), (''dx'', Str ''dx''), (''dy'', Str ''dy''),
        (''depth'', Str ''depth''), (''flags'', Str ''t''), (''niterations'', Num 30)]"

definition masked :: "string list \<Rightarrow> 'f invocation list" where
  "masked maps =
   [gs_run ''r.slope.aspect'' [(''elevation'', Str ''elevation''), (''dx'', Str ''dx''), (''dy'', Str ''dy'')],
    r_sim_water,
    t_create,
    list_depth,
    t_register maps,
    gj ''add_raster_series'' [('''', Str ''depth'')]]"

definition r_mask_remove :: "'f invocation" where
  "r_mask_remove = gs_run ''r.mask'' [(''flags'', Str ''r'')]"

definition after_mask :: "'f invocation list" where
  "after_mask =
   [gs_run ''g.region'' [(''n'', Num 131934), (''s'', Num 126825), (''w'', Num 702726),
                         (''e'', Num 708443), (''res'', Num 3), (''flags'', Str ''a'')],
    gj ''d.rast'' [(''map'', Str ''pcurvature'')],
    gj ''d.rast'' [(''map'', Str ''elevation'')],
    gj ''d.vect'' [(''map'', Str ''drain_vector'')]]"

definition getting_started_checkpoint :: "'f list \<Rightarrow> string list \<Rightarrow> 'f invocation list" where
  "getting_started_checkpoint xy maps =
     before_mask xy @ r_mask # masked maps @ r_mask_remove # after_mask"

subsection \<open>Datasets read and created\<close>

text \<open>
  Which arguments of a tool name datasets it reads and which name datasets it creates
  is part of the tools' interface (their manual pages), for the tools the notebooks use.
\<close>

definition input_keys :: "string \<Rightarrow> string list" where
  "input_keys t =
     (case map_of
        [(''g.region'', [''vector'', ''raster'', ''zoom'']),
         (''r.watershed'', [''elevation'']),
         (''r.path'', [''input'', ''start_points'']),
         (''r.hand'', [''elevation'']),
         (''v.extract'', [''input'']),
         (''v.to.db'', [''map'']),
         (''v.db.select'', [''map'']),
         (''r.water.outlet'', [''input'']),
         (''r.mask'', [''raster'']),
         (''r.slope.aspect'', [''elevation'']),
         (''r.sim.water'', [''elevation'', ''dx'', ''dy'']),
         (''t.register'', [''input'', ''maps'']),
         (''r.drain'', [''input'']),
         (''v.out.ascii'', [''input'']),
         (''r.relief'', [''input'']),
         (''d.rast'', [''map'']),
         (''d.vect'', [''map'']),
         (''d.shade'', [''color'', ''shade'']),
         (''d.legend'', [''raster'']),
         (''add_raster'', ['''']),
         (''add_vector'', ['''']),
         (''add_raster_series'', [''''])] t
      of Some ks \<Rightarrow> ks | None \<Rightarrow> [])"

definition output_keys :: "string \<Rightarrow> string list" where
  "output_keys t =
     (case map_of
        [(''v.import'', [''output'']),
         (''r.in.usgs'', [''output_name'']),
         (''r.in.wms'', [''out'']),
         (''r.watershed'', [''accumulation'', ''drainage'']),
         (''r.path'', [''vector_path'']),
         (''r.hand'', [''hand'', ''inundation_strds'']),
         (''v.extract'', [''output'']),
         (''r.water.outlet'', [''output'']),
         (''r.slope.aspect'', [''dx'', ''dy'', ''pcurvature'']),
         (''r.sim.water'', [''depth'']),
         (''t.create'', [''output'']),
         (''r.drain'', [''output'', ''drain'']),
         (''r.relief'', [''output''])] t
      of Some ks \<Rightarrow> ks | None \<Rightarrow> [])"

definition names_of_arg :: "'f arg \<Rightarrow> string list" where
  "names_of_arg a = (case a of Str n \<Rightarrow> [n] | Strs ns \<Rightarrow> ns | _ \<Rightarrow> [])"

definition datasets :: "string list \<Rightarrow> 'f invocation \<Rightarrow> string list" where
  "datasets keys call =
     concat (map (\<lambda>(k, a). if k \<in> set keys then names_of_arg a else []) (kwargs call))"

definition reads :: "'f invocation \<Rightarrow> string list" where
  "reads call = datasets (input_keys (tool call)) call"

definition writes :: "'f invocation \<Rightarrow> string list" where
  "writes call = datasets (output_keys (tool call)) call"

text \<open>
  The ordering of a sequence: every dataset an invocation reads was created by an
  earlier invocation (\<open>known\<close> holds the names created so far).
\<close>

fun inputs_exist :: "string list \<Rightarrow> 'f invocation list \<Rightarrow> bool" where
  "inputs_exist known [] = True"
| "inputs_exist known (call # calls) =
     (list_all (\<lambda>n. n \<in> set known) (reads call) \<and> inputs_exist (writes call @ known) calls)"

subsection \<open>The raster mask\<close>



section \<open>Stand-ins for evaluation\<close>

text \<open>
  To run the model on a concrete session, \<open>whole_number\<close> stands for \<^verbatim>\<open>float\<close> on
  strings of decimal digits, and \<open>layers_engine\<close> for an engine whose state lists the
  vector layers with the text \<^verbatim>\<open>v.out.ascii\<close> prints for each: the tool fails on a
  layer that is not listed, and every other tool prints nothing and changes nothing. The
  sample session has a layer of two points, a copy of it, an empty layer and a layer
  whose first field is no number; \<open>failing_engine\<close> is an engine on which every tool
  fails. The state of \<open>listing_engine\<close> is the list of its raster maps, which \<^verbatim>\<open>g.list\<close>
  prints one per line. The state of \<open>masking_engine\<close> and of \<open>sim_fails_engine\<close> is the
  raster mask: every tool succeeds on the first, \<^verbatim>\<open>r.sim.water\<close> alone fails on the
  second, and a tool that succeeds changes the mask as \<open>mask_after\<close> says. For the
  set-up cell, \<open>sample_check_output\<close> is an installation that prints its Python path and
  \<open>no_grass\<close> one without the \<^verbatim>\<open>grass\<close> binary.
\<close>

text \<open>
  With the separator \<^verbatim>\<open>comma\<close>, \<^verbatim>\<open>v.out.ascii\<close> prints one line per point, the fields of
  the point joined by commas and the line ended by a newline: \<open>render_lines\<close> and
  \<open>join_fields\<close> write such a text.
\<close>

definition join_fields :: "string list \<Rightarrow> string" where
  "join_fields fs = (case fs of [] \<Rightarrow> [] | f # rest \<Rightarrow> f @ concat (map (\<lambda>g. CHR '','' # g) rest))"

definition render_lines :: "string list \<Rightarrow> string" where
  "render_lines ls = concat (map (\<lambda>l. l @ [CHR 0x0A]) ls)"

fun digits_from :: "int \<Rightarrow> string \<Rightarrow> int option" where
  "digits_from acc [] = Some acc"
| "digits_from acc (c # cs) =
     (if 48 \<le> (of_char c :: nat) \<and> (of_char c :: nat) \<le> 57
      then digits_from (10 * acc + int (of_char c - 48)) cs else None)"

definition whole_number :: "string \<Rightarrow> int option" where
  "whole_number s = (if s = [] then None else digits_from 0 s)"

definition failing_engine :: "(unit, 'f) engine" where
  "failing_engine call w = (Inl (CalledModuleError (tool call)), w)"

definition sample_points :: string where
  "sample_points = ''1,2,7\<newline>30,40,8\<newline>''"

definition sample_session :: "((string \<times> string) list, int) session" where
  "sample_session =
     \<lparr>world = [(''lagoon_points'', sample_points), (''no_points'', []),
               (''lagoon_copy'', sample_points), (''bad_points'', ''x,2,7\<newline>'')],
      log = [], raised = []\<rparr>"

definition sample_check_output :: "string list \<Rightarrow> exn + string" where
  "sample_check_output args =
     (if args = [''grass'', ''--config'', ''python_path'']
      then Inr (''/usr/lib/grass/etc/python\<newline>'')
      else Inl (FileNotFoundError (concat args)))"

definition no_grass :: "string list \<Rightarrow> exn + string" where
  "no_grass args = Inl (FileNotFoundError ''grass'')"

definition sample_has_grass :: "string \<Rightarrow> bool" where
  "sample_has_grass dir \<longleftrightarrow> dir = ''/usr/lib/grass/etc/python''"

definition layers_engine :: "((string \<times> string) list, 'f) engine" where
  "layers_engine call w =
     (if tool call = ''v.out.ascii'' then
        (case map_of (kwargs call) ''input'' of
           Some (Str n) \<Rightarrow>
             (case map_of w n of
                Some text \<Rightarrow> (Inr text, w)
              | None \<Rightarrow> (Inl (CalledModuleError ''v.out.ascii''), w))
         | _ \<Rightarrow> (Inl (CalledModuleError ''v.out.ascii''), w))
      else (Inr [], w))"

definition listing_engine :: "(string list, 'f) engine" where
  "listing_engine call w =
     (if tool call = ''g.list'' then (Inr (render_lines w), w) else (Inr [], w))"



section \<open>Basic facts\<close>

lemma comprehension_map:
  "(\<And>x. x \<in> set xs \<Longrightarrow> f x = Inr (g x)) \<Longrightarrow> comprehension f xs = Inr (map g xs)"
  by (induction xs) auto

lemma splitlines_Nil: "splitlines [] = []"
  by (simp add: splitlines_def)

lemma splitlines_from_Nil_iff: "splitlines_from cur text = [] \<longleftrightarrow> cur = [] \<and> text = []"
  by (induction cur "text" rule: splitlines_from.induct) (auto split: list.splits)

lemma splitlines_eq_Nil_iff: "splitlines text = [] \<longleftrightarrow> text = []"
  by (simp add: splitlines_def splitlines_from_Nil_iff)

lemma invoke_raises:
  "eng call (world s) = (Inl e, w') \<Longrightarrow>
   invoke eng call s =
     (Inl e, \<lparr>world = w', log = log s @ [call],
              raised = (if api call = Shell then raised s else raised s @ [e])\<rparr>)"
  by (simp add: invoke_def)

lemma invoke_returns:
  "eng call (world s) = (Inr out, w') \<Longrightarrow>
   invoke eng call s = (Inr out, \<lparr>world = w', log = log s @ [call], raised = raised s\<rparr>)"
  by (simp add: invoke_def)

lemma invoke_log: "log (snd (invoke eng call s)) = log s @ [call]"
  by (simp add: invoke_def split: prod.splits sum.splits)

lemma invoke_world: "world (snd (invoke eng call s)) = snd (eng call (world s))"
  by (simp add: invoke_def split: prod.splits sum.splits)

lemma invoke_raised:
  "raised (snd (invoke eng call s)) =
     raised s @ (case fst (invoke eng call s) of
                   Inl e \<Rightarrow> if api call = Shell then [] else [e]
                 | Inr out \<Rightarrow> [])"
  by (simp add: invoke_def split: prod.splits sum.splits)

lemma invoke_fst: "fst (invoke eng call s) = fst (eng call (world s))"
  by (simp add: invoke_def split: prod.splits sum.splits)

lemma run_command_invoke:
  "run_command eng t kw s =
     (case invoke eng (gs_run t kw) s of
        (Inl e, s') \<Rightarrow> (Inl e, s')
      | (Inr out, s') \<Rightarrow> (Inr (), s'))"
  by (simp add: run_command_def gs_run_def)

lemma run_command_snd: "snd (run_command eng t kw s) = snd (invoke eng (gs_run t kw) s)"
  by (simp add: run_command_invoke split: prod.splits sum.splits)

lemma run_command_fst:
  "fst (run_command eng t kw s) =
     (case fst (eng (gs_run t kw) (world s)) of Inl e \<Rightarrow> Inl e | Inr out \<Rightarrow> Inr ())"
  by (simp add: run_command_invoke invoke_def split: prod.splits sum.splits)

lemma read_v_out_ascii:
  "read_command eng ''v.out.ascii'' [(''input'', Str points), (''separator'', Str ''comma'')] s
   = invoke eng (v_out_ascii points) s"
  by (simp add: read_command_def v_out_ascii_def)

lemma gs_run_r_drain:
  "gs_run ''r.drain''
     [(''input'', Str elevation), (''output'', Str ''drain''),
      (''drain'', Str ''drain_vector''), (''start_coordinates'', Coords coordinates)]
   = r_drain elevation coordinates"
  by (simp add: gs_run_def r_drain_def)

lemma gs_run_r_slope_aspect:
  "gs_run ''r.slope.aspect'' [(''elevation'', Str elevation), (''pcurvature'', Str ''pcurvature'')]
   = r_slope_aspect elevation"
  by (simp add: gs_run_def r_slope_aspect_def)

lemma get_coordinates_text:
  assumes "eng (v_out_ascii points) (world s) = (Inr text, w')"
  shows "get_coordinates float eng points s =
    (comprehension (point_coordinates float) (splitlines text),
     \<lparr>world = w', log = log s @ [v_out_ascii points], raised = raised s\<rparr>)"
  using assms by (simp add: get_coordinates_def read_v_out_ascii invoke_returns)

lemma get_coordinates_raises:
  assumes "eng (v_out_ascii points) (world s) = (Inl e, w')"
  shows "get_coordinates float eng points s =
    (Inl e, \<lparr>world = w', log = log s @ [v_out_ascii points], raised = raised s @ [e]\<rparr>)"
  using assms by (simp add: get_coordinates_def read_v_out_ascii invoke_raises v_out_ascii_def)

lemma get_coordinates_snd:
  "snd (get_coordinates float eng points s) = snd (invoke eng (v_out_ascii points) s)"
  by (simp add: get_coordinates_def read_v_out_ascii split: prod.splits sum.splits)

lemma myanalysis_cases:
  "myanalysis float eng elevation points s =
     (case get_coordinates float eng points s of
        (Inl e, s') \<Rightarrow> (Inl e, s')
      | (Inr coordinates, s') \<Rightarrow>
          if coordinates \<noteq> [] then
            (case invoke eng (r_drain elevation coordinates) s' of
               (Inl e, s'') \<Rightarrow> (Inl e, s'')
             | (Inr out, s'') \<Rightarrow> (Inr (), s''))
          else (Inr (), s'))"
  by (simp add: myanalysis_def run_command_invoke gs_run_r_drain split: prod.splits sum.splits)

lemma myanalysis_pcurvature_cases:
  "myanalysis_pcurvature eng elevation s =
     (case invoke eng (r_slope_aspect elevation) s of
        (Inl e, s') \<Rightarrow> (Inl e, s')
      | (Inr out, s') \<Rightarrow> (Inr (), s'))"
  by (simp add: myanalysis_pcurvature_def run_command_invoke gs_run_r_slope_aspect)

lemma sample_text:
  "layers_engine (v_out_ascii ''lagoon_points'') (world sample_session)
     = (Inr sample_points, world sample_session)"
  by (simp add: layers_engine_def v_out_ascii_def sample_session_def)

lemma sample_empty:
  "layers_engine (v_out_ascii ''no_points'') (world sample_session)
     = (Inr [], world sample_session)"
  by (simp add: layers_engine_def v_out_ascii_def sample_session_def)

lemma sample_lines: "splitlines sample_points = [''1,2,7'', ''30,40,8'']"
  by (simp add: splitlines_def sample_points_def linebreak_def)

lemma sample_fields:
  "split CHR '','' ''1,2,7'' = [''1'', ''2'', ''7'']"
  "split CHR '','' ''30,40,8'' = [''30'', ''40'', ''8'']"
  by (simp_all add: split_def)

lemma sample_numbers:
  "whole_number ''1'' = Some 1" "whole_number ''2'' = Some 2"
  "whole_number ''30'' = Some 30" "whole_number ''40'' = Some 40"
  by (simp_all add: whole_number_def)

lemma sample_coordinates:
  "comprehension (point_coordinates whole_number) (splitlines sample_points)
     = Inr [[1, 2], [30, 40]]"
  by (simp add: sample_lines point_coordinates_def sample_fields sample_numbers pyfloat_def)

section \<open>The coordinates of a point layer\<close>

text \<open>
  C5. Let \<open>text\<close> be what \<^verbatim>\<open>v.out.ascii\<close> prints. If every line of \<open>text\<close> (as
  \<^verbatim>\<open>splitlines\<close> cuts it) has at least two comma-separated fields and \<^verbatim>\<open>float\<close> accepts the
  first two, then \<^verbatim>\<open>get_coordinates\<close> returns a list with one element per line, in line
  order, whose \<open>i\<close>-th element is the pair of the floats of the first two fields of line
  \<open>i\<close>; for the empty text it returns the empty list.
\<close>

theorem get_coordinates_pairs:
  assumes out: "eng (v_out_ascii points) (world s) = (Inr text, w')"
    and rows: "\<forall>line \<in> set (splitlines text). \<exists>f1 f2 rest x y.
                 split CHR '','' line = f1 # f2 # rest \<and> float f1 = Some x \<and> float f2 = Some y"
  shows "\<exists>cs. fst (get_coordinates float eng points s) = Inr cs
           \<and> length cs = length (splitlines text)
           \<and> (\<forall>i < length cs. \<exists>f1 f2 rest x y.
                 split CHR '','' (splitlines text ! i) = f1 # f2 # rest
                 \<and> float f1 = Some x \<and> float f2 = Some y \<and> cs ! i = [x, y])
           \<and> (text = [] \<longrightarrow> cs = [])"
proof -
  let ?g = "\<lambda>line. map (the \<circ> float) (take 2 (split CHR '','' line))"
  have each: "point_coordinates float line = Inr (?g line)"
    if "line \<in> set (splitlines text)" for line
  proof -
    from rows that obtain f1 f2 rest x y where
      "split CHR '','' line = f1 # f2 # rest" "float f1 = Some x" "float f2 = Some y"
      by blast
    then show ?thesis
      by (simp add: point_coordinates_def pyfloat_def)
  qed
  have res: "fst (get_coordinates float eng points s) = Inr (map ?g (splitlines text))"
    using out each by (simp add: get_coordinates_text comprehension_map)
  have nth: "\<exists>f1 f2 rest x y. split CHR '','' (splitlines text ! i) = f1 # f2 # rest
        \<and> float f1 = Some x \<and> float f2 = Some y \<and> map ?g (splitlines text) ! i = [x, y]"
    if "i < length (splitlines text)" for i
  proof -
    from that have "splitlines text ! i \<in> set (splitlines text)" by simp
    with rows obtain f1 f2 rest x y where
      "split CHR '','' (splitlines text ! i) = f1 # f2 # rest"
      "float f1 = Some x" "float f2 = Some y"
      by blast
    with that show ?thesis by simp
  qed
  show ?thesis
    using res nth by (auto simp: splitlines_Nil)
qed

theorem get_coordinates_pairs_witness:
  "layers_engine (v_out_ascii ''lagoon_points'') (world sample_session)
     = (Inr sample_points, world sample_session)
   \<and> splitlines sample_points = [''1,2,7'', ''30,40,8'']
   \<and> split CHR '','' ''1,2,7'' = [''1'', ''2'', ''7'']
   \<and> split CHR '','' ''30,40,8'' = [''30'', ''40'', ''8'']
   \<and> whole_number ''1'' = Some 1 \<and> whole_number ''2'' = Some 2
   \<and> whole_number ''30'' = Some 30 \<and> whole_number ''40'' = Some 40
   \<and> fst (get_coordinates whole_number layers_engine ''lagoon_points'' sample_session)
       = Inr [[1, 2], [30, 40]]"
proof -
  have rows: "\<forall>line \<in> set (splitlines sample_points). \<exists>f1 f2 rest x y.
         split CHR '','' line = f1 # f2 # rest
         \<and> whole_number f1 = Some x \<and> whole_number f2 = Some y"
    by (simp add: sample_lines sample_fields sample_numbers)
  from get_coordinates_pairs
         [where eng = layers_engine and points = "''lagoon_points''" and s = sample_session
            and float = whole_number, OF sample_text rows]
  obtain cs where cs:
    "fst (get_coordinates whole_number layers_engine ''lagoon_points'' sample_session) = Inr cs"
    "length cs = length (splitlines sample_points)"
    "\<forall>i < length cs. \<exists>f1 f2 rest x y.
        split CHR '','' (splitlines sample_points ! i) = f1 # f2 # rest
        \<and> whole_number f1 = Some x \<and> whole_number f2 = Some y \<and> cs ! i = [x, y]"
    by blast
  from cs(2) have len: "length cs = 2" by (simp add: sample_lines)
  have first: "cs ! 0 = [1, 2]"
  proof -
    from cs(3) len obtain f1 f2 rest x y where
      "split CHR '','' (splitlines sample_points ! 0) = f1 # f2 # rest"
      "whole_number f1 = Some x" "whole_number f2 = Some y" "cs ! 0 = [x, y]"
      by (metis zero_less_numeral)
    then show ?thesis
      by (auto simp: sample_lines sample_fields sample_numbers)
  qed
  have second: "cs ! 1 = [30, 40]"
  proof -
    from cs(3) len obtain f1 f2 rest x y where
      "split CHR '','' (splitlines sample_points ! 1) = f1 # f2 # rest"
      "whole_number f1 = Some x" "whole_number f2 = Some y" "cs ! 1 = [x, y]"
      by (metis one_less_numeral_iff semiring_norm(76))
    then show ?thesis
      by (auto simp: sample_lines sample_fields sample_numbers)
  qed
  from len first second have "cs = [[1, 2], [30, 40]]"
    by (auto simp: list_eq_iff_nth_eq less_Suc_eq numeral_2_eq_2)
  with cs(1) sample_text show ?thesis
    by (simp add: sample_lines sample_fields sample_numbers)
qed

section \<open>Texts of point layers\<close>

text \<open>
  On a text written as \<^verbatim>\<open>v.out.ascii\<close> writes it, \<open>splitlines\<close> gives back the lines and
  \<open>split\<close> the fields.
\<close>

lemma linebreak_newline: "linebreak (CHR 0x0A)"
  by (simp add: linebreak_def)

lemma splitlines_from_line:
  "\<forall>c \<in> set l. \<not> linebreak c \<Longrightarrow>
   splitlines_from cur (l @ CHR 0x0A # rest) = (cur @ l) # splitlines_from [] rest"
proof (induction l arbitrary: cur)
  case Nil
  show ?case by (cases rest) (simp_all add: linebreak_newline)
next
  case (Cons c l)
  then show ?case by simp
qed

lemma splitlines_render_lines:
  "\<forall>l \<in> set ls. \<forall>c \<in> set l. \<not> linebreak c \<Longrightarrow> splitlines (render_lines ls) = ls"
proof (induction ls)
  case Nil
  show ?case by (simp add: render_lines_def splitlines_def)
next
  case (Cons l ls)
  then have "splitlines_from [] (l @ CHR 0x0A # render_lines ls)
      = ([] @ l) # splitlines_from [] (render_lines ls)"
    by (intro splitlines_from_line) simp
  with Cons show ?case by (simp add: render_lines_def splitlines_def)
qed

lemma split_from_last: "sep \<notin> set f \<Longrightarrow> split_from sep cur f = [cur @ f]"
  by (induction f arbitrary: cur) auto

lemma split_from_field:
  "sep \<notin> set f \<Longrightarrow> split_from sep cur (f @ sep # rest) = (cur @ f) # split_from sep [] rest"
  by (induction f arbitrary: cur) auto

lemma split_from_fields:
  "\<forall>g \<in> set (f # rest). sep \<notin> set g \<Longrightarrow>
   split_from sep [] (f @ concat (map (\<lambda>g. sep # g) rest)) = f # rest"
proof (induction rest arbitrary: f)
  case Nil
  then show ?case by (simp add: split_from_last)
next
  case (Cons g rest)
  then have "split_from sep [] (f @ sep # (g @ concat (map (\<lambda>g. sep # g) rest)))
      = ([] @ f) # split_from sep [] (g @ concat (map (\<lambda>g. sep # g) rest))"
    by (intro split_from_field) simp
  moreover from Cons have "split_from sep [] (g @ concat (map (\<lambda>g. sep # g) rest)) = g # rest"
    by simp
  ultimately show ?case by simp
qed

lemma split_join_fields:
  "fs \<noteq> [] \<Longrightarrow> \<forall>g \<in> set fs. CHR '','' \<notin> set g \<Longrightarrow> split CHR '','' (join_fields fs) = fs"
  by (cases fs) (simp_all add: join_fields_def split_def split_from_fields)

lemma linebreak_comma: "\<not> linebreak CHR '',''"
  by (simp add: linebreak_def)

lemma join_fields_chars:
  "set (join_fields fs) \<subseteq> insert CHR '','' (\<Union>g \<in> set fs. set g)"
  by (cases fs) (auto simp: join_fields_def)

text \<open>
  On the text of a layer whose points have at least two fields that \<^verbatim>\<open>float\<close> accepts,
  \<^verbatim>\<open>get_coordinates\<close> returns the pairs of the first two fields, point by point.
\<close>

lemma get_coordinates_rows:
  assumes out: "eng (v_out_ascii points) (world s) = (Inr (render_lines (map join_fields rows)), w')"
    and rows: "\<forall>fs \<in> set rows. \<exists>f1 f2 rest x y. fs = f1 # f2 # rest
                 \<and> float f1 = Some x \<and> float f2 = Some y"
    and chars: "\<forall>fs \<in> set rows. \<forall>g \<in> set fs. CHR '','' \<notin> set g \<and> (\<forall>c \<in> set g. \<not> linebreak c)"
  shows "fst (get_coordinates float eng points s)
      = Inr (map (\<lambda>fs. [the (float (fs ! 0)), the (float (fs ! 1))]) rows)"
proof -
  have "\<forall>l \<in> set (map join_fields rows). \<forall>c \<in> set l. \<not> linebreak c"
    using chars join_fields_chars linebreak_comma by fastforce
  then have lines: "splitlines (render_lines (map join_fields rows)) = map join_fields rows"
    by (rule splitlines_render_lines)
  have each: "point_coordinates float (join_fields fs)
      = Inr [the (float (fs ! 0)), the (float (fs ! 1))]"
    if "fs \<in> set rows" for fs
  proof -
    from rows that obtain f1 f2 rest x y where
      fs: "fs = f1 # f2 # rest" "float f1 = Some x" "float f2 = Some y"
      by blast
    from chars that have "\<forall>g \<in> set fs. CHR '','' \<notin> set g" by blast
    with fs(1) have "split CHR '','' (join_fields fs) = fs"
      by (intro split_join_fields) simp_all
    with fs show ?thesis
      by (simp add: point_coordinates_def pyfloat_def)
  qed
  have "comprehension (point_coordinates float) (map join_fields rows)
      = Inr (map (\<lambda>l. [the (float (split CHR '','' l ! 0)), the (float (split CHR '','' l ! 1))])
               (map join_fields rows))"
  proof (rule comprehension_map)
    fix l
    assume "l \<in> set (map join_fields rows)"
    then obtain fs where fs: "fs \<in> set rows" "l = join_fields fs" by auto
    from rows fs(1) obtain f1 f2 rest where "fs = f1 # f2 # rest" by blast
    moreover from chars fs(1) have "\<forall>g \<in> set fs. CHR '','' \<notin> set g" by blast
    ultimately have "split CHR '','' (join_fields fs) = fs"
      by (intro split_join_fields) simp_all
    with each [OF fs(1)] fs(2)
    show "point_coordinates float l
        = Inr [the (float (split CHR '','' l ! 0)), the (float (split CHR '','' l ! 1))]"
      by simp
  qed
  also have "\<dots> = Inr (map (\<lambda>fs. [the (float (fs ! 0)), the (float (fs ! 1))]) rows)"
  proof -
    have "split CHR '','' (join_fields fs) = fs" if "fs \<in> set rows" for fs
    proof -
      from rows that obtain f1 f2 rest where "fs = f1 # f2 # rest" by blast
      moreover from chars that have "\<forall>g \<in> set fs. CHR '','' \<notin> set g" by blast
      ultimately show ?thesis by (intro split_join_fields) simp_all
    qed
    then show ?thesis by simp
  qed
  finally show ?thesis
    using out lines by (simp add: get_coordinates_text)
qed

lemma sample_points_rendered:
  "sample_points = render_lines (map join_fields [[''1'', ''2'', ''7''], [''30'', ''40'', ''8'']])"
  by (simp add: sample_points_def render_lines_def join_fields_def)

section \<open>The guard of the drain analysis\<close>

text \<open>
  C9. If \<^verbatim>\<open>v.out.ascii\<close> prints nothing for the point layer, \<^verbatim>\<open>get_coordinates\<close> returns
  the empty list and \<^verbatim>\<open>myanalysis\<close> returns normally after that single invocation: it
  invokes \<^verbatim>\<open>r.drain\<close> not at all and raises nothing.
\<close>

theorem myanalysis_empty_layer:
  assumes "eng (v_out_ascii points) (world s) = (Inr [], w')"
  shows "fst (get_coordinates float eng points s) = Inr []
       \<and> myanalysis float eng elevation points s
           = (Inr (), \<lparr>world = w', log = log s @ [v_out_ascii points], raised = raised s\<rparr>)
       \<and> filter (\<lambda>call. tool call = ''r.drain'')
            (log (snd (myanalysis float eng elevation points s)))
           = filter (\<lambda>call. tool call = ''r.drain'') (log s)"
proof -
  have g: "get_coordinates float eng points s
      = (Inr [], \<lparr>world = w', log = log s @ [v_out_ascii points], raised = raised s\<rparr>)"
    using assms by (simp add: get_coordinates_text splitlines_Nil)
  then have m: "myanalysis float eng elevation points s
      = (Inr (), \<lparr>world = w', log = log s @ [v_out_ascii points], raised = raised s\<rparr>)"
    by (simp add: myanalysis_cases)
  have "tool (v_out_ascii points :: 'b invocation) \<noteq> ''r.drain''"
    by (simp add: v_out_ascii_def)
  with g m show ?thesis by simp
qed

theorem myanalysis_empty_layer_witness:
  "layers_engine (v_out_ascii ''no_points'') (world sample_session)
     = (Inr [], world sample_session)
   \<and> myanalysis whole_number layers_engine ''elevation'' ''no_points'' sample_session
       = (Inr (), \<lparr>world = world sample_session,
                   log = log sample_session @ [v_out_ascii ''no_points''],
                   raised = raised sample_session\<rparr>)"
  using myanalysis_empty_layer
          [where eng = layers_engine and points = "''no_points''" and s = sample_session
             and float = whole_number and elevation = "''elevation''", OF sample_empty]
        sample_empty
  by simp

section \<open>Cells and scripts: invocations, exceptions, engine state\<close>

lemma run_call_log: "log (snd (run_call eng call s)) = log s @ [call]"
  by (simp add: run_call_def invoke_def split: prod.splits sum.splits)

lemma run_call_world: "world (snd (run_call eng call s)) = snd (eng call (world s))"
  by (simp add: run_call_def invoke_def split: prod.splits sum.splits)

lemma run_call_raised:
  "raised (snd (run_call eng call s)) =
     raised s @ (case fst (run_call eng call s) of Inl e \<Rightarrow> [e] | Inr u \<Rightarrow> [])"
  by (simp add: run_call_def invoke_def split: prod.splits sum.splits)


lemma run_all_raised:
  "raised (snd (run_all eng calls s)) =
     raised s @ (case fst (run_all eng calls s) of Inl e \<Rightarrow> [e] | Inr u \<Rightarrow> [])"
proof (induction calls arbitrary: s)
  case Nil
  then show ?case by simp
next
  case (Cons call calls)
  obtain r s' where p: "run_call eng call s = (r, s')" by (cases "run_call eng call s")
  have rs: "raised s' = raised s @ (case r of Inl e \<Rightarrow> [e] | Inr u \<Rightarrow> [])"
    using run_call_raised [of eng call s] p by simp
  show ?case
  proof (cases r)
    case (Inl e)
    with p rs show ?thesis by simp
  next
    case (Inr u)
    with p rs Cons.IH [of s'] show ?thesis by simp
  qed
qed

lemma invoke_outcome:
  assumes "invoke eng call s = (r, s')" and "api call \<noteq> Shell"
  shows "log s' = log s @ [call]"
    and "world s' = snd (eng call (world s))"
    and "raised s' = raised s @ (case r of Inl e \<Rightarrow> [e] | Inr out \<Rightarrow> [])"
    and "fst (eng call (world s)) = r"
  using assms by (auto simp: invoke_def split: prod.splits sum.splits)

lemma api_not_Shell:
  "api (v_out_ascii points) \<noteq> Shell" "api (r_drain elevation coordinates) \<noteq> Shell"
  "api (r_slope_aspect elevation) \<noteq> Shell" "api t_create \<noteq> Shell"
  "api list_depth \<noteq> Shell" "api (t_register maps) \<noteq> Shell"
  by (simp_all add: v_out_ascii_def r_drain_def r_slope_aspect_def t_create_def list_depth_def
        t_register_def)

lemma get_coordinates_cases:
  "get_coordinates float eng points s =
     (case invoke eng (v_out_ascii points) s of
        (Inl e, s') \<Rightarrow> (Inl e, s')
      | (Inr out, s') \<Rightarrow> (comprehension (point_coordinates float) (splitlines out), s'))"
  by (simp add: get_coordinates_def read_v_out_ascii)

lemma gs_run_t_create:
  "gs_run ''t.create''
     [(''output'', Str ''depth''), (''temporaltype'', Str ''relative''),
      (''title'', Str ''Overland flow depth''), (''description'', Str ''Overland flow depth'')]
   = t_create"
  by (simp add: gs_run_def t_create_def)

lemma gs_run_t_register:
  "gs_run ''t.register'' [(''input'', Str ''depth''), (''maps'', Strs maps)] = t_register maps"
  by (simp add: gs_run_def t_register_def)

lemma list_strings_depth:
  "list_strings names_of eng [(''type'', Str ''raster''), (''pattern'', Str ''depth*'')] s =
     (case invoke eng list_depth s of
        (Inl e, s') \<Rightarrow> (Inl e, s')
      | (Inr out, s') \<Rightarrow> (Inr (names_of out), s'))"
  by (simp add: list_strings_def list_depth_def)

lemma register_cell_cases:
  "register_cell names_of eng s =
     (case invoke eng t_create s of
        (Inl e, s1) \<Rightarrow> (Inl e, s1)
      | (Inr out1, s1) \<Rightarrow>
          (case invoke eng list_depth s1 of
             (Inl e, s2) \<Rightarrow> (Inl e, s2)
           | (Inr out, s2) \<Rightarrow>
               (case invoke eng (t_register (names_of out)) s2 of
                  (Inl e, s3) \<Rightarrow> (Inl e, s3)
                | (Inr out3, s3) \<Rightarrow> (Inr (), s3))))"
proof -
  obtain r1 s1 where i1: "invoke eng t_create s = (r1, s1)"
    by (cases "invoke eng t_create s")
  show ?thesis
  proof (cases r1)
    case (Inl e)
    with i1 show ?thesis
      by (simp add: register_cell_def run_command_invoke gs_run_t_create)
  next
    case out1: (Inr out1)
    obtain r2 s2 where i2: "invoke eng list_depth s1 = (r2, s2)"
      by (cases "invoke eng list_depth s1")
    show ?thesis
    proof (cases r2)
      case (Inl e)
      with i1 out1 i2 show ?thesis
        by (simp add: register_cell_def run_command_invoke gs_run_t_create list_strings_depth)
    next
      case (Inr out)
      with i1 out1 i2 show ?thesis
        by (simp add: register_cell_def run_command_invoke gs_run_t_create list_strings_depth
              gs_run_t_register)
    qed
  qed
qed

text \<open>
  What an authored function leaves behind, step by step: \<open>trace\<close> relates the session
  before and after to the invocations made, says that the engine's state changed only
  through them, and that an exception raised is the result.
\<close>

lemma get_coordinates_trace:
  obtains (raises) e s' where
      "get_coordinates float eng points s = (Inl e, s')"
      "log s' = log s @ [v_out_ascii points]" "raised s' = raised s @ [e]"
      "world s' = snd (eng (v_out_ascii points) (world s))"
      "fst (eng (v_out_ascii points) (world s)) = Inl e"
  | (returns) out s' where
      "get_coordinates float eng points s
         = (comprehension (point_coordinates float) (splitlines out), s')"
      "log s' = log s @ [v_out_ascii points]" "raised s' = raised s"
      "world s' = snd (eng (v_out_ascii points) (world s))"
      "fst (eng (v_out_ascii points) (world s)) = Inr out"
proof -
  obtain r s' where i: "invoke eng (v_out_ascii points) s = (r, s')"
    by (cases "invoke eng (v_out_ascii points) s")
  note f = invoke_outcome [OF i api_not_Shell(1)]
  show thesis
  proof (cases r)
    case (Inl e)
    with i f raises [of e s'] show thesis by (simp add: get_coordinates_cases)
  next
    case (Inr out)
    with i f returns [of out s'] show thesis by (simp add: get_coordinates_cases)
  qed
qed

lemma myanalysis_trace:
  obtains (raises_first) e s' where
      "get_coordinates float eng points s = (Inl e, s')"
      "myanalysis float eng elevation points s = (Inl e, s')"
  | (empty) s' where
      "get_coordinates float eng points s = (Inr [], s')"
      "myanalysis float eng elevation points s = (Inr (), s')"
  | (drain) coordinates s' r s'' where
      "get_coordinates float eng points s = (Inr coordinates, s')" "coordinates \<noteq> []"
      "invoke eng (r_drain elevation coordinates) s' = (r, s'')"
      "myanalysis float eng elevation points s
         = ((case r of Inl e \<Rightarrow> Inl e | Inr out \<Rightarrow> Inr ()), s'')"
proof -
  obtain g s' where g: "get_coordinates float eng points s = (g, s')"
    by (cases "get_coordinates float eng points s")
  show thesis
  proof (cases g)
    case (Inl e)
    with g raises_first [of e s'] show thesis by (simp add: myanalysis_cases)
  next
    case (Inr coordinates)
    show thesis
    proof (cases "coordinates = []")
      case True
      with g Inr empty [of s'] show thesis by (simp add: myanalysis_cases)
    next
      case False
      obtain r s'' where i: "invoke eng (r_drain elevation coordinates) s' = (r, s'')"
        by (cases "invoke eng (r_drain elevation coordinates) s'")
      with g Inr False have
        "myanalysis float eng elevation points s
           = ((case r of Inl e \<Rightarrow> Inl e | Inr out \<Rightarrow> Inr ()), s'')"
        by (simp add: myanalysis_cases split: sum.splits)
      with g Inr False i drain [of coordinates s' r s''] show thesis by simp
    qed
  qed
qed

lemma get_coordinates_outcome:
  "raised (snd (get_coordinates float eng points s)) = raised s
   \<or> (\<exists>e. raised (snd (get_coordinates float eng points s)) = raised s @ [e]
          \<and> fst (get_coordinates float eng points s) = Inl e)"
  by (cases rule: get_coordinates_trace [of float eng points s]) simp_all

lemma get_coordinates_log:
  "log (snd (get_coordinates float eng points s)) = log s @ [v_out_ascii points]"
  by (simp add: get_coordinates_snd invoke_log)

lemma get_coordinates_raised_Inr:
  "get_coordinates float eng points s = (Inr cs, s') \<Longrightarrow> raised s' = raised s"
  by (cases rule: get_coordinates_trace [of float eng points s]) simp_all

lemma myanalysis_outcome:
  "raised (snd (myanalysis float eng elevation points s)) = raised s
   \<or> (\<exists>e. raised (snd (myanalysis float eng elevation points s)) = raised s @ [e]
          \<and> fst (myanalysis float eng elevation points s) = Inl e)"
proof (cases rule: myanalysis_trace [of float eng points s elevation])
  case (raises_first e s')
  with get_coordinates_outcome [of float eng points s] show ?thesis by auto
next
  case (empty s')
  with get_coordinates_raised_Inr show ?thesis by fastforce
next
  case (drain coordinates s' r s'')
  from drain(1) have "raised s' = raised s" by (rule get_coordinates_raised_Inr)
  with invoke_outcome(3) [OF drain(3) api_not_Shell(2)] drain(4)
  show ?thesis by (cases r) simp_all
qed

lemma myanalysis_log:
  "log (snd (myanalysis float eng elevation points s)) =
     log s @ v_out_ascii points #
       (case fst (get_coordinates float eng points s) of
          Inl e \<Rightarrow> []
        | Inr coordinates \<Rightarrow> if coordinates \<noteq> [] then [r_drain elevation coordinates] else [])"
proof (cases rule: myanalysis_trace [of float eng points s elevation])
  case (raises_first e s')
  with get_coordinates_log [of float eng points s] show ?thesis by simp
next
  case (empty s')
  with get_coordinates_log [of float eng points s] show ?thesis by simp
next
  case (drain coordinates s' r s'')
  with get_coordinates_log [of float eng points s]
    invoke_outcome(1) [OF drain(3) api_not_Shell(2)]
  show ?thesis by simp
qed

lemma myanalysis_pcurvature_trace:
  obtains r s' where
    "invoke eng (r_slope_aspect elevation) s = (r, s')"
    "myanalysis_pcurvature eng elevation s
       = ((case r of Inl e \<Rightarrow> Inl e | Inr out \<Rightarrow> Inr ()), s')"
proof -
  obtain r s' where i: "invoke eng (r_slope_aspect elevation) s = (r, s')"
    by (cases "invoke eng (r_slope_aspect elevation) s")
  then have "myanalysis_pcurvature eng elevation s
       = ((case r of Inl e \<Rightarrow> Inl e | Inr out \<Rightarrow> Inr ()), s')"
    by (simp add: myanalysis_pcurvature_cases split: sum.splits)
  with i that show thesis by blast
qed

lemma myanalysis_pcurvature_outcome:
  "raised (snd (myanalysis_pcurvature eng elevation s)) = raised s
   \<or> (\<exists>e. raised (snd (myanalysis_pcurvature eng elevation s)) = raised s @ [e]
          \<and> fst (myanalysis_pcurvature eng elevation s) = Inl e)"
proof -
  obtain r s' where t:
    "invoke eng (r_slope_aspect elevation) s = (r, s')"
    "myanalysis_pcurvature eng elevation s
       = ((case r of Inl e \<Rightarrow> Inl e | Inr out \<Rightarrow> Inr ()), s')"
    by (rule myanalysis_pcurvature_trace)
  with invoke_outcome(3) [OF t(1) api_not_Shell(3)] show ?thesis by (cases r) simp_all
qed

lemma myanalysis_pcurvature_log:
  "log (snd (myanalysis_pcurvature eng elevation s)) = log s @ [r_slope_aspect elevation]"
proof -
  obtain r s' where t:
    "invoke eng (r_slope_aspect elevation) s = (r, s')"
    "myanalysis_pcurvature eng elevation s
       = ((case r of Inl e \<Rightarrow> Inl e | Inr out \<Rightarrow> Inr ()), s')"
    by (rule myanalysis_pcurvature_trace)
  with invoke_outcome(1) [OF t(1) api_not_Shell(3)] show ?thesis by simp
qed

lemma register_cell_trace:
  obtains (create) e s1 where
      "invoke eng t_create s = (Inl e, s1)" "register_cell names_of eng s = (Inl e, s1)"
  | (listing) out1 s1 e s2 where
      "invoke eng t_create s = (Inr out1, s1)" "invoke eng list_depth s1 = (Inl e, s2)"
      "register_cell names_of eng s = (Inl e, s2)"
  | (register) out1 s1 out s2 r s3 where
      "invoke eng t_create s = (Inr out1, s1)" "invoke eng list_depth s1 = (Inr out, s2)"
      "invoke eng (t_register (names_of out)) s2 = (r, s3)"
      "register_cell names_of eng s = ((case r of Inl e \<Rightarrow> Inl e | Inr out3 \<Rightarrow> Inr ()), s3)"
proof -
  obtain r1 s1 where i1: "invoke eng t_create s = (r1, s1)"
    by (cases "invoke eng t_create s")
  show thesis
  proof (cases r1)
    case (Inl e)
    with i1 create [of e s1] show thesis by (simp add: register_cell_cases)
  next
    case out1: (Inr out1)
    obtain r2 s2 where i2: "invoke eng list_depth s1 = (r2, s2)"
      by (cases "invoke eng list_depth s1")
    show thesis
    proof (cases r2)
      case (Inl e)
      with i1 out1 i2 listing [of out1 s1 e s2] show thesis by (simp add: register_cell_cases)
    next
      case out: (Inr out)
      obtain r s3 where i3: "invoke eng (t_register (names_of out)) s2 = (r, s3)"
        by (cases "invoke eng (t_register (names_of out)) s2")
      with i1 out1 i2 out have
        "register_cell names_of eng s = ((case r of Inl e \<Rightarrow> Inl e | Inr out3 \<Rightarrow> Inr ()), s3)"
        by (simp add: register_cell_cases split: sum.splits)
      with i1 out1 i2 out i3 register [of out1 s1 out s2 r s3] show thesis by simp
    qed
  qed
qed

lemma register_cell_outcome:
  "raised (snd (register_cell names_of eng s)) = raised s
   \<or> (\<exists>e. raised (snd (register_cell names_of eng s)) = raised s @ [e]
          \<and> fst (register_cell names_of eng s) = Inl e)"
proof (cases rule: register_cell_trace [of eng s names_of])
  case (create e s1)
  with invoke_outcome(3) [OF create(1) api_not_Shell(4)] show ?thesis by simp
next
  case (listing out1 s1 e s2)
  with invoke_outcome(3) [OF listing(1) api_not_Shell(4)]
    invoke_outcome(3) [OF listing(2) api_not_Shell(5)]
  show ?thesis by simp
next
  case (register out1 s1 out s2 r s3)
  with invoke_outcome(3) [OF register(1) api_not_Shell(4)]
    invoke_outcome(3) [OF register(2) api_not_Shell(5)]
    invoke_outcome(3) [OF register(3) api_not_Shell(6)]
  show ?thesis by (cases r) simp_all
qed

lemma get_coordinates_world:
  "world (snd (get_coordinates float eng points s)) = snd (eng (v_out_ascii points) (world s))"
  by (simp add: get_coordinates_snd invoke_world)

lemma get_coordinates_fst:
  "fst (get_coordinates float eng points s) =
     (case fst (eng (v_out_ascii points) (world s)) of
        Inl e \<Rightarrow> Inl e
      | Inr out \<Rightarrow> comprehension (point_coordinates float) (splitlines out))"
proof (cases "eng (v_out_ascii points) (world s)")
  case (Pair r w)
  then show ?thesis
    by (cases r) (simp_all add: get_coordinates_text get_coordinates_raises)
qed

lemma myanalysis_world:
  "\<exists>calls. log (snd (myanalysis float eng elevation points s)) = log s @ calls
     \<and> world (snd (myanalysis float eng elevation points s))
         = foldl (\<lambda>w call. snd (eng call w)) (world s) calls"
proof (cases rule: myanalysis_trace [of float eng points s elevation])
  case (raises_first e s')
  with get_coordinates_log [of float eng points s] get_coordinates_world [of float eng points s]
  have "log (snd (myanalysis float eng elevation points s)) = log s @ [v_out_ascii points]
     \<and> world (snd (myanalysis float eng elevation points s))
         = foldl (\<lambda>w call. snd (eng call w)) (world s) [v_out_ascii points]"
    by simp
  then show ?thesis by blast
next
  case (empty s')
  with get_coordinates_log [of float eng points s] get_coordinates_world [of float eng points s]
  have "log (snd (myanalysis float eng elevation points s)) = log s @ [v_out_ascii points]
     \<and> world (snd (myanalysis float eng elevation points s))
         = foldl (\<lambda>w call. snd (eng call w)) (world s) [v_out_ascii points]"
    by simp
  then show ?thesis by blast
next
  case (drain coordinates s' r s'')
  with get_coordinates_log [of float eng points s] get_coordinates_world [of float eng points s]
    invoke_outcome(1,2) [OF drain(3) api_not_Shell(2)]
  have "log (snd (myanalysis float eng elevation points s))
          = log s @ [v_out_ascii points, r_drain elevation coordinates]
     \<and> world (snd (myanalysis float eng elevation points s))
         = foldl (\<lambda>w call. snd (eng call w)) (world s)
             [v_out_ascii points, r_drain elevation coordinates]"
    by simp
  then show ?thesis by blast
qed

lemma myanalysis_pcurvature_world:
  "world (snd (myanalysis_pcurvature eng elevation s))
     = foldl (\<lambda>w call. snd (eng call w)) (world s) [r_slope_aspect elevation]"
proof -
  obtain r s' where t:
    "invoke eng (r_slope_aspect elevation) s = (r, s')"
    "myanalysis_pcurvature eng elevation s
       = ((case r of Inl e \<Rightarrow> Inl e | Inr out \<Rightarrow> Inr ()), s')"
    by (rule myanalysis_pcurvature_trace)
  with invoke_outcome(2) [OF t(1) api_not_Shell(3)] show ?thesis by simp
qed

lemma register_cell_world:
  "\<exists>calls. log (snd (register_cell names_of eng s)) = log s @ calls
     \<and> world (snd (register_cell names_of eng s))
         = foldl (\<lambda>w call. snd (eng call w)) (world s) calls"
proof (cases rule: register_cell_trace [of eng s names_of])
  case (create e s1)
  with invoke_outcome(1,2) [OF create(1) api_not_Shell(4)]
  have "log (snd (register_cell names_of eng s)) = log s @ [t_create]
     \<and> world (snd (register_cell names_of eng s))
         = foldl (\<lambda>w call. snd (eng call w)) (world s) [t_create]"
    by simp
  then show ?thesis by blast
next
  case (listing out1 s1 e s2)
  with invoke_outcome(1,2) [OF listing(1) api_not_Shell(4)]
    invoke_outcome(1,2) [OF listing(2) api_not_Shell(5)]
  have "log (snd (register_cell names_of eng s)) = log s @ [t_create, list_depth]
     \<and> world (snd (register_cell names_of eng s))
         = foldl (\<lambda>w call. snd (eng call w)) (world s) [t_create, list_depth]"
    by simp
  then show ?thesis by blast
next
  case (register out1 s1 out s2 r s3)
  with invoke_outcome(1,2) [OF register(1) api_not_Shell(4)]
    invoke_outcome(1,2) [OF register(2) api_not_Shell(5)]
    invoke_outcome(1,2) [OF register(3) api_not_Shell(6)]
  have "log (snd (register_cell names_of eng s))
          = log s @ [t_create, list_depth, t_register (names_of out)]
     \<and> world (snd (register_cell names_of eng s))
         = foldl (\<lambda>w call. snd (eng call w)) (world s)
             [t_create, list_depth, t_register (names_of out)]"
    by simp
  then show ?thesis by blast
qed

lemma run_all_world:
  "\<exists>done. log (snd (run_all eng calls s)) = log s @ done
     \<and> world (snd (run_all eng calls s)) = foldl (\<lambda>w call. snd (eng call w)) (world s) done"
proof (induction calls arbitrary: s)
  case Nil
  then show ?case by simp
next
  case (Cons call calls)
  obtain r s' where p: "run_call eng call s = (r, s')" by (cases "run_call eng call s")
  have l: "log s' = log s @ [call]"
    using run_call_log [of eng call s] p by simp
  have w: "world s' = snd (eng call (world s))"
    using run_call_world [of eng call s] p by simp
  show ?case
  proof (cases r)
    case (Inl e)
    with p l w have "log (snd (run_all eng (call # calls) s)) = log s @ [call]
       \<and> world (snd (run_all eng (call # calls) s))
           = foldl (\<lambda>w call. snd (eng call w)) (world s) [call]"
      by simp
    then show ?thesis by blast
  next
    case (Inr u)
    from Cons.IH [of s'] obtain rest where
      "log (snd (run_all eng calls s')) = log s' @ rest"
      "world (snd (run_all eng calls s')) = foldl (\<lambda>w call. snd (eng call w)) (world s') rest"
      by blast
    with p Inr l w have "log (snd (run_all eng (call # calls) s)) = log s @ (call # rest)
       \<and> world (snd (run_all eng (call # calls) s))
           = foldl (\<lambda>w call. snd (eng call w)) (world s) (call # rest)"
      by simp
    then show ?thesis by blast
  qed
qed

lemma path_cell_returns:
  "check_output [''grass'', ''--config'', ''python_path''] = Inr out \<Longrightarrow>
   path_cell check_output sys_path = (Inr (), sys_path @ [strip out])"
  by (simp add: path_cell_def)

lemma path_cell_raises:
  "check_output [''grass'', ''--config'', ''python_path''] = Inl e \<Longrightarrow>
   path_cell check_output sys_path = (Inl e, sys_path)"
  by (simp add: path_cell_def)

lemma sample_path: "strip ''/usr/lib/grass/etc/python\<newline>'' = ''/usr/lib/grass/etc/python''"
  by (simp add: strip_def isspace_def)

lemma sample_missing:
  "layers_engine (v_out_ascii ''missing_points'') (world sample_session)
     = (Inl (CalledModuleError ''v.out.ascii''), world sample_session)"
  by (simp add: layers_engine_def v_out_ascii_def sample_session_def)

lemma sample_copy:
  "layers_engine (v_out_ascii ''lagoon_copy'') (world sample_session)
     = (Inr sample_points, world sample_session)"
  by (simp add: layers_engine_def v_out_ascii_def sample_session_def)

lemma sample_get_coordinates:
  "get_coordinates whole_number layers_engine ''lagoon_points'' sample_session
     = (Inr [[1, 2], [30, 40]],
        \<lparr>world = world sample_session, log = log sample_session @ [v_out_ascii ''lagoon_points''],
         raised = raised sample_session\<rparr>)"
  using get_coordinates_text
          [where eng = layers_engine and points = "''lagoon_points''" and s = sample_session
             and float = whole_number, OF sample_text]
  by (simp add: sample_coordinates)


lemma sample_get_missing:
  "get_coordinates whole_number layers_engine ''missing_points'' sample_session
     = (Inl (CalledModuleError ''v.out.ascii''),
        \<lparr>world = world sample_session, log = log sample_session @ [v_out_ascii ''missing_points''],
         raised = raised sample_session @ [CalledModuleError ''v.out.ascii'']\<rparr>)"
  using get_coordinates_raises
          [where eng = layers_engine and points = "''missing_points''" and s = sample_session
             and float = whole_number, OF sample_missing]
  by simp


lemma sample_myanalysis_missing:
  "myanalysis whole_number layers_engine ''elevation'' ''missing_points'' sample_session
     = (Inl (CalledModuleError ''v.out.ascii''),
        \<lparr>world = world sample_session, log = [v_out_ascii ''missing_points''],
         raised = [CalledModuleError ''v.out.ascii'']\<rparr>)"
  by (simp add: myanalysis_cases sample_get_missing) (simp add: sample_session_def)

section \<open>Exceptions\<close>

text \<open>
  C2. The models of the authored functions and cells have no branch that takes an
  exception and goes on: every \<open>Inl\<close> is passed to the caller. So every exception that a
  wrapper-library call raises while \<^verbatim>\<open>get_coordinates\<close>, either \<^verbatim>\<open>myanalysis\<close>, the
  registering cell or any sequence of invocations runs is the result of that run; an
  exception that leaves \<^verbatim>\<open>get_coordinates\<close> (one of \<^verbatim>\<open>float\<close> too) leaves \<^verbatim>\<open>myanalysis\<close>;
  and an exception of \<^verbatim>\<open>subprocess.check_output\<close> is the result of the set-up cell, which
  then leaves \<^verbatim>\<open>sys.path\<close> as it was.
\<close>

theorem exceptions_propagate:
  "(\<forall>e \<in> set (drop (length (raised s)) (raised (snd (get_coordinates float eng points s)))).
      fst (get_coordinates float eng points s) = Inl e)
   \<and> (\<forall>e \<in> set (drop (length (raised s))
                   (raised (snd (myanalysis float eng elevation points s)))).
        fst (myanalysis float eng elevation points s) = Inl e)
   \<and> (\<forall>e \<in> set (drop (length (raised s)) (raised (snd (myanalysis_pcurvature eng elevation s)))).
        fst (myanalysis_pcurvature eng elevation s) = Inl e)
   \<and> (\<forall>e \<in> set (drop (length (raised s)) (raised (snd (register_cell names_of eng s)))).
        fst (register_cell names_of eng s) = Inl e)
   \<and> (\<forall>e \<in> set (drop (length (raised s)) (raised (snd (run_all eng calls s)))).
        fst (run_all eng calls s) = Inl e)
   \<and> (\<forall>e. fst (get_coordinates float eng points s) = Inl e
          \<longrightarrow> fst (myanalysis float eng elevation points s) = Inl e)
   \<and> (\<forall>e. check_output [''grass'', ''--config'', ''python_path''] = Inl e
          \<longrightarrow> path_cell check_output sys_path = (Inl e, sys_path))"
proof -
  have one: "\<forall>e \<in> set (drop (length old) new). r = Inl e"
    if "new = old \<or> (\<exists>e. new = old @ [e] \<and> r = Inl e)"
    for old new :: "exn list" and r :: "exn + 'x"
    using that by auto
  have "raised (snd (run_all eng calls s)) = raised s
      \<or> (\<exists>e. raised (snd (run_all eng calls s)) = raised s @ [e]
            \<and> fst (run_all eng calls s) = Inl e)"
    using run_all_raised [of eng calls s] by (cases "fst (run_all eng calls s)") simp_all
  moreover have "fst (myanalysis float eng elevation points s) = Inl e"
    if "fst (get_coordinates float eng points s) = Inl e" for e
    using that by (cases rule: myanalysis_trace [of float eng points s elevation]) simp_all
  ultimately show ?thesis
    using one [OF get_coordinates_outcome [of float eng points s]]
      one [OF myanalysis_outcome [of float eng elevation points s]]
      one [OF myanalysis_pcurvature_outcome [of eng elevation s]]
      one [OF register_cell_outcome [of names_of eng s]]
      one [of "raised (snd (run_all eng calls s))" "raised s" "fst (run_all eng calls s)"]
      path_cell_raises [of check_output _ sys_path]
    by blast
qed

theorem exceptions_propagate_witness:
  "raised (snd (get_coordinates whole_number failing_engine ''lagoon_points''
                  \<lparr>world = (), log = [], raised = []\<rparr>))
     = [CalledModuleError ''v.out.ascii'']
   \<and> fst (get_coordinates whole_number failing_engine ''lagoon_points''
             \<lparr>world = (), log = [], raised = []\<rparr>)
       = Inl (CalledModuleError ''v.out.ascii'')
   \<and> fst (myanalysis whole_number failing_engine ''elevation'' ''lagoon_points''
             \<lparr>world = (), log = [], raised = []\<rparr>)
       = Inl (CalledModuleError ''v.out.ascii'')
   \<and> fst (myanalysis_pcurvature failing_engine ''elevation''
             (\<lparr>world = (), log = [], raised = []\<rparr> :: (unit, int) session))
       = Inl (CalledModuleError ''r.slope.aspect'')
   \<and> fst (register_cell splitlines failing_engine
             (\<lparr>world = (), log = [], raised = []\<rparr> :: (unit, int) session))
       = Inl (CalledModuleError ''t.create'')
   \<and> fst (run_all failing_engine [sh ''g.version'' [], r_mask, r_sim_water]
             (\<lparr>world = (), log = [], raised = []\<rparr> :: (unit, int) session))
       = Inl (CalledModuleError ''r.mask'')
   \<and> fst (get_coordinates whole_number layers_engine ''bad_points'' sample_session)
       = Inl (ValueError ''x'')
   \<and> fst (myanalysis whole_number layers_engine ''elevation'' ''bad_points'' sample_session)
       = Inl (ValueError ''x'')
   \<and> no_grass [''grass'', ''--config'', ''python_path''] = Inl (FileNotFoundError ''grass'')
   \<and> path_cell no_grass [''/usr/lib/python3'']
       = (Inl (FileNotFoundError ''grass''), [''/usr/lib/python3''])"
proof -
  let ?s = "\<lparr>world = (), log = [], raised = []\<rparr> :: (unit, int) session"
  note all = exceptions_propagate
      [of ?s whole_number failing_engine "''lagoon_points''" "''elevation''" splitlines
         "[sh ''g.version'' [], r_mask, r_sim_water]" no_grass "[''/usr/lib/python3'']"]
  have g: "raised (snd (get_coordinates whole_number failing_engine ''lagoon_points'' ?s))
      = [CalledModuleError ''v.out.ascii'']"
    by (simp add: get_coordinates_cases invoke_def failing_engine_def v_out_ascii_def)
  have m: "raised (snd (myanalysis whole_number failing_engine ''elevation'' ''lagoon_points'' ?s))
      = [CalledModuleError ''v.out.ascii'']"
    by (simp add: myanalysis_cases get_coordinates_cases invoke_def failing_engine_def
          v_out_ascii_def)
  have c: "raised (snd (myanalysis_pcurvature failing_engine ''elevation'' ?s))
      = [CalledModuleError ''r.slope.aspect'']"
    by (simp add: myanalysis_pcurvature_cases invoke_def failing_engine_def r_slope_aspect_def)
  have r: "raised (snd (register_cell splitlines failing_engine ?s))
      = [CalledModuleError ''t.create'']"
    by (simp add: register_cell_cases invoke_def failing_engine_def t_create_def)
  have a: "raised (snd (run_all failing_engine [sh ''g.version'' [], r_mask, r_sim_water] ?s))
      = [CalledModuleError ''r.mask'']"
    by (simp add: run_call_def invoke_def failing_engine_def sh_def r_mask_def gs_run_def)
  have n: "no_grass [''grass'', ''--config'', ''python_path''] = Inl (FileNotFoundError ''grass'')"
    by (simp add: no_grass_def)
  have b: "fst (get_coordinates whole_number layers_engine ''bad_points'' sample_session)
      = Inl (ValueError ''x'')"
    by (simp add: get_coordinates_cases invoke_def layers_engine_def v_out_ascii_def
          sample_session_def splitlines_def linebreak_def point_coordinates_def split_def
          pyfloat_def whole_number_def)
  from all g have 1: "fst (get_coordinates whole_number failing_engine ''lagoon_points'' ?s)
      = Inl (CalledModuleError ''v.out.ascii'')"
    by simp
  from all m have 2: "fst (myanalysis whole_number failing_engine ''elevation''
      ''lagoon_points'' ?s) = Inl (CalledModuleError ''v.out.ascii'')"
    by simp
  from all c have 3: "fst (myanalysis_pcurvature failing_engine ''elevation'' ?s)
      = Inl (CalledModuleError ''r.slope.aspect'')"
    by simp
  from all r have 4: "fst (register_cell splitlines failing_engine ?s)
      = Inl (CalledModuleError ''t.create'')"
    by simp
  from all a have 5: "fst (run_all failing_engine [sh ''g.version'' [], r_mask, r_sim_water] ?s)
      = Inl (CalledModuleError ''r.mask'')"
    by simp
  from all n have 6: "path_cell no_grass [''/usr/lib/python3'']
      = (Inl (FileNotFoundError ''grass''), [''/usr/lib/python3''])"
    by simp
  from exceptions_propagate
      [of sample_session whole_number layers_engine "''bad_points''" "''elevation''" splitlines
         "[]" no_grass "[]"] b
  have 7: "fst (myanalysis whole_number layers_engine ''elevation'' ''bad_points'' sample_session)
      = Inl (ValueError ''x'')"
    by simp
  from g 1 2 3 4 5 b 7 n 6 show ?thesis by (intro conjI)
qed

section \<open>What the authored operations invoke\<close>











lemma register_cell_register:
  assumes "fst (eng t_create (world s)) = Inr out1"
    and "fst (eng list_depth (snd (eng t_create (world s)))) = Inr out"
  shows "log (snd (register_cell names_of eng s))
           = log s @ [t_create, list_depth, t_register (names_of out)]
       \<and> fst (register_cell names_of eng s)
           = (case fst (eng (t_register (names_of out))
                          (snd (eng list_depth (snd (eng t_create (world s)))))) of
                Inl e \<Rightarrow> Inl e
              | Inr out3 \<Rightarrow> Inr ())"
proof (cases rule: register_cell_trace [of eng s names_of])
  case (create e' s1)
  with invoke_outcome(4) [OF create(1) api_not_Shell(4)] assms show ?thesis by simp
next
  case (listing o1 s1 e' s2)
  with invoke_outcome(2) [OF listing(1) api_not_Shell(4)]
    invoke_outcome(4) [OF listing(2) api_not_Shell(5)] assms
  show ?thesis by simp
next
  case (register o1 s1 out' s2 r s3)
  from invoke_outcome(2) [OF register(1) api_not_Shell(4)]
    invoke_outcome(4) [OF register(2) api_not_Shell(5)] assms(2)
  have same: "out' = out" by simp
  from invoke_outcome(2) [OF register(1) api_not_Shell(4)]
    invoke_outcome(2) [OF register(2) api_not_Shell(5)]
  have w2: "world s2 = snd (eng list_depth (snd (eng t_create (world s))))" by simp
  from invoke_outcome(4) [OF register(3) api_not_Shell(6)] w2 same
  have r: "fst (eng (t_register (names_of out))
                  (snd (eng list_depth (snd (eng t_create (world s)))))) = r"
    by simp
  from invoke_outcome(1) [OF register(1) api_not_Shell(4)]
    invoke_outcome(1) [OF register(2) api_not_Shell(5)]
    invoke_outcome(1) [OF register(3) api_not_Shell(6)] same
  have l: "log s3 = log s @ [t_create, list_depth, t_register (names_of out)]" by simp
  from register(4) r l show ?thesis by simp
qed




section \<open>Dataset names\<close>

lemma myanalysis_tools:
  "map tool (drop (length (log s)) (log (snd (myanalysis float eng elevation points s))))
     = ''v.out.ascii'' #
         (case fst (get_coordinates float eng points s) of
            Inl e \<Rightarrow> []
          | Inr coordinates \<Rightarrow> if coordinates \<noteq> [] then [''r.drain''] else [])"
  by (simp add: myanalysis_log v_out_ascii_def r_drain_def split: sum.splits)

text \<open>
  C6. Dataset names go to the tools as they are. Whatever the engine and the names:

  \<^item> the one invocation of \<^verbatim>\<open>myanalysis(elevation)\<close> is \<^verbatim>\<open>r.slope.aspect\<close> with the argument
    \<open>elevation\<close> itself;
  \<^item> the one invocation of \<^verbatim>\<open>get_coordinates(points)\<close> is \<^verbatim>\<open>v.out.ascii\<close> with the argument
    \<open>points\<close> itself;
  \<^item> \<^verbatim>\<open>myanalysis(elevation, points)\<close> invokes \<^verbatim>\<open>v.out.ascii\<close> with \<open>points\<close> itself and,
    when \<^verbatim>\<open>get_coordinates\<close> returned a non-empty list, \<^verbatim>\<open>r.drain\<close> with \<open>elevation\<close>
    itself and the literal names \<^verbatim>\<open>drain\<close> and \<^verbatim>\<open>drain_vector\<close>, and nothing else;
  \<^item> when \<^verbatim>\<open>t.create\<close> and the listing succeed, the registering cell passes to
    \<^verbatim>\<open>t.register\<close> the literal name \<^verbatim>\<open>depth\<close> and, as \<^verbatim>\<open>maps\<close>, the names that
    \<^verbatim>\<open>gs.list_strings\<close> decoded from the listing, as they are;
  \<^item> no code looks at a name: with another engine, session and names for which
    \<^verbatim>\<open>v.out.ascii\<close> answers alike, \<^verbatim>\<open>get_coordinates\<close> returns the same, and
    \<^verbatim>\<open>myanalysis\<close> invokes the same tools in the same order.

  All other dataset arguments in the notebooks are string literals (see the sequences
  \<open>getting_started\<close> and \<open>getting_started_checkpoint\<close>).
\<close>

theorem dataset_names_verbatim:
  "drop (length (log s)) (log (snd (myanalysis_pcurvature eng elevation s)))
     = [\<lparr>api = RunCommand, tool = ''r.slope.aspect'',
         kwargs = [(''elevation'', Str elevation), (''pcurvature'', Str ''pcurvature'')]\<rparr>]
   \<and> drop (length (log s)) (log (snd (get_coordinates float eng points s)))
       = [\<lparr>api = ReadCommand, tool = ''v.out.ascii'',
           kwargs = [(''input'', Str points), (''separator'', Str ''comma'')]\<rparr>]
   \<and> drop (length (log s)) (log (snd (myanalysis float eng elevation points s)))
       = \<lparr>api = ReadCommand, tool = ''v.out.ascii'',
          kwargs = [(''input'', Str points), (''separator'', Str ''comma'')]\<rparr>
         # (case fst (get_coordinates float eng points s) of
              Inl e \<Rightarrow> []
            | Inr coordinates \<Rightarrow>
                if coordinates \<noteq> [] then
                  [\<lparr>api = RunCommand, tool = ''r.drain'',
                    kwargs = [(''input'', Str elevation), (''output'', Str ''drain''),
                              (''drain'', Str ''drain_vector''),
                              (''start_coordinates'', Coords coordinates)]\<rparr>]
                else [])
   \<and> (\<forall>out1 out. fst (eng t_create (world s)) = Inr out1
               \<and> fst (eng list_depth (snd (eng t_create (world s)))) = Inr out
          \<longrightarrow> drop (length (log s)) (log (snd (register_cell names_of eng s)))
                = [t_create, list_depth,
                   \<lparr>api = RunCommand, tool = ''t.register'',
                    kwargs = [(''input'', Str ''depth''), (''maps'', Strs (names_of out))]\<rparr>])
   \<and> (\<forall>eng' s' points' elevation'.
          fst (eng' (v_out_ascii points') (world s')) = fst (eng (v_out_ascii points) (world s))
          \<longrightarrow> fst (get_coordinates float eng' points' s')
                = fst (get_coordinates float eng points s)
              \<and> map tool (drop (length (log s'))
                            (log (snd (myanalysis float eng' elevation' points' s'))))
                  = map tool (drop (length (log s))
                                (log (snd (myanalysis float eng elevation points s)))))"
proof -
  have c: "drop (length (log s)) (log (snd (myanalysis_pcurvature eng elevation s)))
     = [\<lparr>api = RunCommand, tool = ''r.slope.aspect'',
         kwargs = [(''elevation'', Str elevation), (''pcurvature'', Str ''pcurvature'')]\<rparr>]"
    by (simp add: myanalysis_pcurvature_log r_slope_aspect_def)
  have g: "drop (length (log s)) (log (snd (get_coordinates float eng points s)))
       = [\<lparr>api = ReadCommand, tool = ''v.out.ascii'',
           kwargs = [(''input'', Str points), (''separator'', Str ''comma'')]\<rparr>]"
    by (simp add: get_coordinates_log v_out_ascii_def)
  have m: "drop (length (log s)) (log (snd (myanalysis float eng elevation points s)))
       = \<lparr>api = ReadCommand, tool = ''v.out.ascii'',
          kwargs = [(''input'', Str points), (''separator'', Str ''comma'')]\<rparr>
         # (case fst (get_coordinates float eng points s) of
              Inl e \<Rightarrow> []
            | Inr coordinates \<Rightarrow>
                if coordinates \<noteq> [] then
                  [\<lparr>api = RunCommand, tool = ''r.drain'',
                    kwargs = [(''input'', Str elevation), (''output'', Str ''drain''),
                              (''drain'', Str ''drain_vector''),
                              (''start_coordinates'', Coords coordinates)]\<rparr>]
                else [])"
    by (simp add: myanalysis_log v_out_ascii_def r_drain_def split: sum.splits)
  have r: "\<forall>out1 out. fst (eng t_create (world s)) = Inr out1
               \<and> fst (eng list_depth (snd (eng t_create (world s)))) = Inr out
          \<longrightarrow> drop (length (log s)) (log (snd (register_cell names_of eng s)))
                = [t_create, list_depth,
                   \<lparr>api = RunCommand, tool = ''t.register'',
                    kwargs = [(''input'', Str ''depth''), (''maps'', Strs (names_of out))]\<rparr>]"
  proof (intro allI impI)
    fix out1 out
    assume "fst (eng t_create (world s)) = Inr out1
               \<and> fst (eng list_depth (snd (eng t_create (world s)))) = Inr out"
    then have "log (snd (register_cell names_of eng s))
        = log s @ [t_create, list_depth, t_register (names_of out)]"
      using register_cell_register [of eng s out1 out names_of] by simp
    then show "drop (length (log s)) (log (snd (register_cell names_of eng s)))
                = [t_create, list_depth,
                   \<lparr>api = RunCommand, tool = ''t.register'',
                    kwargs = [(''input'', Str ''depth''), (''maps'', Strs (names_of out))]\<rparr>]"
      by (simp add: t_register_def)
  qed
  have o: "\<forall>eng' s' points' elevation'.
          fst (eng' (v_out_ascii points') (world s')) = fst (eng (v_out_ascii points) (world s))
          \<longrightarrow> fst (get_coordinates float eng' points' s')
                = fst (get_coordinates float eng points s)
              \<and> map tool (drop (length (log s'))
                            (log (snd (myanalysis float eng' elevation' points' s'))))
                  = map tool (drop (length (log s))
                                (log (snd (myanalysis float eng elevation points s))))"
    by (simp add: get_coordinates_fst myanalysis_tools)
  from c g m r o show ?thesis by (intro conjI)
qed

theorem dataset_names_verbatim_witness:
  "drop (length (log sample_session))
     (log (snd (myanalysis whole_number layers_engine ''elevation'' ''lagoon_points''
                  sample_session)))
     = [\<lparr>api = ReadCommand, tool = ''v.out.ascii'',
         kwargs = [(''input'', Str ''lagoon_points''), (''separator'', Str ''comma'')]\<rparr>,
        \<lparr>api = RunCommand, tool = ''r.drain'',
         kwargs = [(''input'', Str ''elevation''), (''output'', Str ''drain''),
                   (''drain'', Str ''drain_vector''),
                   (''start_coordinates'', Coords [[1, 2], [30, 40]])]\<rparr>]
   \<and> drop (length (log sample_session))
       (log (snd (myanalysis_pcurvature layers_engine ''dem'' sample_session)))
       = [\<lparr>api = RunCommand, tool = ''r.slope.aspect'',
           kwargs = [(''elevation'', Str ''dem''), (''pcurvature'', Str ''pcurvature'')]\<rparr>]
   \<and> fst (listing_engine (list_depth :: int invocation)
            (snd (listing_engine (t_create :: int invocation) [''depth.01'', ''depth.02''])))
       = Inr ''depth.01\<newline>depth.02\<newline>''
   \<and> log (snd (register_cell splitlines listing_engine
                 (\<lparr>world = [''depth.01'', ''depth.02''], log = [], raised = []\<rparr>
                    :: (string list, int) session)))
       = [t_create, list_depth,
          \<lparr>api = RunCommand, tool = ''t.register'',
           kwargs = [(''input'', Str ''depth''), (''maps'', Strs [''depth.01'', ''depth.02''])]\<rparr>]
   \<and> fst (layers_engine (v_out_ascii ''lagoon_copy'') (world sample_session))
       = fst (layers_engine (v_out_ascii ''lagoon_points'') (world sample_session))
   \<and> fst (get_coordinates whole_number layers_engine ''lagoon_copy'' sample_session)
       = fst (get_coordinates whole_number layers_engine ''lagoon_points'' sample_session)
   \<and> map tool (drop (length (log sample_session))
                 (log (snd (myanalysis whole_number layers_engine ''dem'' ''lagoon_copy''
                              sample_session))))
       = map tool (drop (length (log sample_session))
                     (log (snd (myanalysis whole_number layers_engine ''elevation''
                                  ''lagoon_points'' sample_session))))"
proof -
  let ?d = "\<lparr>world = [''depth.01'', ''depth.02''], log = [], raised = []\<rparr>
              :: (string list, int) session"
  let ?L = "listing_engine :: (string list, int) engine"
  note on_layers = dataset_names_verbatim
      [where eng = layers_engine and s = sample_session and float = whole_number
         and elevation = "''elevation''" and points = "''lagoon_points''"
         and names_of = splitlines]
  note on_dem = dataset_names_verbatim
      [where eng = layers_engine and s = sample_session and float = whole_number
         and elevation = "''dem''" and points = "''lagoon_points''" and names_of = splitlines]
  note on_listing = dataset_names_verbatim
      [where eng = ?L and s = ?d and float = whole_number
         and elevation = "''elevation''" and points = "''lagoon_points''"
         and names_of = splitlines]
  have coordinates:
    "fst (get_coordinates whole_number layers_engine ''lagoon_points'' sample_session)
       = Inr [[1, 2], [30, 40]]"
    by (simp add: sample_get_coordinates)
  from on_layers have
    "drop (length (log sample_session))
       (log (snd (myanalysis whole_number layers_engine ''elevation'' ''lagoon_points''
                    sample_session)))
       = \<lparr>api = ReadCommand, tool = ''v.out.ascii'',
          kwargs = [(''input'', Str ''lagoon_points''), (''separator'', Str ''comma'')]\<rparr>
         # (case fst (get_coordinates whole_number layers_engine ''lagoon_points''
                        sample_session) of
              Inl e \<Rightarrow> []
            | Inr coordinates \<Rightarrow>
                if coordinates \<noteq> [] then
                  [\<lparr>api = RunCommand, tool = ''r.drain'',
                    kwargs = [(''input'', Str ''elevation''), (''output'', Str ''drain''),
                              (''drain'', Str ''drain_vector''),
                              (''start_coordinates'', Coords coordinates)]\<rparr>]
                else [])"
    by (elim conjE)
  with coordinates have 1:
    "drop (length (log sample_session))
       (log (snd (myanalysis whole_number layers_engine ''elevation'' ''lagoon_points''
                    sample_session)))
     = [\<lparr>api = ReadCommand, tool = ''v.out.ascii'',
         kwargs = [(''input'', Str ''lagoon_points''), (''separator'', Str ''comma'')]\<rparr>,
        \<lparr>api = RunCommand, tool = ''r.drain'',
         kwargs = [(''input'', Str ''elevation''), (''output'', Str ''drain''),
                   (''drain'', Str ''drain_vector''),
                   (''start_coordinates'', Coords [[1, 2], [30, 40]])]\<rparr>]"
    by simp
  from on_dem have 2:
    "drop (length (log sample_session))
       (log (snd (myanalysis_pcurvature layers_engine ''dem'' sample_session)))
       = [\<lparr>api = RunCommand, tool = ''r.slope.aspect'',
           kwargs = [(''elevation'', Str ''dem''), (''pcurvature'', Str ''pcurvature'')]\<rparr>]"
    by (elim conjE)
  have created: "fst (?L t_create (world ?d)) = Inr []"
    by (simp add: listing_engine_def t_create_def)
  have 3: "fst (?L list_depth (snd (?L t_create [''depth.01'', ''depth.02''])))
      = Inr ''depth.01\<newline>depth.02\<newline>''"
    by (simp add: listing_engine_def t_create_def list_depth_def render_lines_def)
  have names: "splitlines ''depth.01\<newline>depth.02\<newline>'' = [''depth.01'', ''depth.02'']"
    by (simp add: splitlines_def linebreak_def)
  from created 3 have listed: "fst (?L t_create (world ?d)) = Inr []
      \<and> fst (?L list_depth (snd (?L t_create (world ?d)))) = Inr ''depth.01\<newline>depth.02\<newline>''"
    by simp
  from on_listing have
    "\<forall>out1 out. fst (?L t_create (world ?d)) = Inr out1
               \<and> fst (?L list_depth (snd (?L t_create (world ?d)))) = Inr out
          \<longrightarrow> drop (length (log ?d)) (log (snd (register_cell splitlines ?L ?d)))
                = [t_create, list_depth,
                   \<lparr>api = RunCommand, tool = ''t.register'',
                    kwargs = [(''input'', Str ''depth''), (''maps'', Strs (splitlines out))]\<rparr>]"
    by (elim conjE)
  from this [rule_format, OF listed] names
  have 4: "log (snd (register_cell splitlines ?L ?d))
       = [t_create, list_depth,
          \<lparr>api = RunCommand, tool = ''t.register'',
           kwargs = [(''input'', Str ''depth''), (''maps'', Strs [''depth.01'', ''depth.02''])]\<rparr>]"
    by simp
  have 5: "fst (layers_engine (v_out_ascii ''lagoon_copy'') (world sample_session))
       = fst (layers_engine (v_out_ascii ''lagoon_points'') (world sample_session))"
    by (simp add: sample_text sample_copy)
  note opaque = on_layers [THEN conjunct2, THEN conjunct2, THEN conjunct2, THEN conjunct2,
      rule_format]
  from opaque [where eng' = layers_engine and points' = "''lagoon_copy''"
                 and s' = sample_session and elevation' = "''dem''", OF 5]
  have 6: "fst (get_coordinates whole_number layers_engine ''lagoon_copy'' sample_session)
       = fst (get_coordinates whole_number layers_engine ''lagoon_points'' sample_session)"
    and 7: "map tool (drop (length (log sample_session))
                 (log (snd (myanalysis whole_number layers_engine ''dem'' ''lagoon_copy''
                              sample_session))))
       = map tool (drop (length (log sample_session))
                     (log (snd (myanalysis whole_number layers_engine ''elevation''
                                  ''lagoon_points'' sample_session))))"
    by simp_all
  from 1 2 3 4 5 6 7 show ?thesis by (intro conjI)
qed

section \<open>What the repository computes itself\<close>

lemma comprehension_first_fail:
  assumes "\<And>y. y \<in> set before \<Longrightarrow> \<exists>v. f y = Inr v" and "f x = Inl e"
  shows "comprehension f (before @ x # after) = Inl e"
  using assms
proof (induction before)
  case Nil
  then show ?case by simp
next
  case (Cons y before)
  from Cons.prems(1) [of y] obtain v where "f y = Inr v" by auto
  moreover have "comprehension f (before @ x # after) = Inl e"
    using Cons.prems by (intro Cons.IH) simp_all
  ultimately show ?case by simp
qed

lemma point_coordinates_accepts:
  assumes "\<forall>f \<in> set (take 2 (split CHR '','' line)). float f \<noteq> None"
  shows "point_coordinates float line
           = Inr (map (\<lambda>f. the (float f)) (take 2 (split CHR '','' line)))"
  unfolding point_coordinates_def
proof (rule comprehension_map)
  fix f
  assume "f \<in> set (take 2 (split CHR '','' line))"
  with assms obtain v where "float f = Some v" by auto
  then show "pyfloat float f = Inr (the (float f))" by (simp add: pyfloat_def)
qed

lemma point_coordinates_rejects:
  assumes "take 2 (split CHR '','' line) = accepted @ f # rest"
    and "\<forall>g \<in> set accepted. float g \<noteq> None" and "float f = None"
  shows "point_coordinates float line = Inl (ValueError f)"
proof -
  have "comprehension (pyfloat float) (accepted @ f # rest) = Inl (ValueError f)"
  proof (rule comprehension_first_fail)
    fix g
    assume "g \<in> set accepted"
    with assms(2) obtain v where "float g = Some v" by auto
    then show "\<exists>v. pyfloat float g = Inr v" by (simp add: pyfloat_def)
  next
    from assms(3) show "pyfloat float f = Inl (ValueError f)" by (simp add: pyfloat_def)
  qed
  with assms(1) show ?thesis by (simp add: point_coordinates_def)
qed

text \<open>
  C4, as stated, fails on \<^verbatim>\<open>get_coordinates\<close>: run against a stand-in engine that prints
  two lines of text, it returns a list of two coordinate pairs. The engine produced the
  text; the pairs are computed by the function's own code.
\<close>

theorem get_coordinates_computed_counterexample:
  "fst (layers_engine (v_out_ascii ''lagoon_points'') (world sample_session))
     = Inr ''1,2,7\<newline>30,40,8\<newline>''
   \<and> fst (get_coordinates whole_number layers_engine ''lagoon_points'' sample_session)
       = Inr [[1, 2], [30, 40]]"
  by (simp add: sample_text sample_get_coordinates sample_points_def)

text \<open>
  C4, amended. The repository has a computation of its own with an input-output
  contract, the parsing in \<^verbatim>\<open>get_coordinates\<close>. Its input is what \<^verbatim>\<open>v.out.ascii\<close> answers
  and its output is fixed by that answer alone:

  \<^item> an exception of \<^verbatim>\<open>v.out.ascii\<close> is the result;
  \<^item> if \<^verbatim>\<open>v.out.ascii\<close> prints \<open>text\<close> and \<^verbatim>\<open>float\<close> accepts the first two comma-separated
    fields of every line of \<open>text\<close> (the only field of a line without a comma), the result
    is the list, in line order, of the lists of the floats of these fields, the first
    field before the second;
  \<^item> otherwise the result is the \<^verbatim>\<open>ValueError\<close> of the first such field that \<^verbatim>\<open>float\<close>
    rejects, in the first line that has one;
  \<^item> so the result is the same for any two engines, sessions and layer names for which
    \<^verbatim>\<open>v.out.ascii\<close> answers alike, and the function can be tested against a stand-in
    engine.
\<close>

theorem get_coordinates_contract:
  "(\<forall>e. fst (eng (v_out_ascii points) (world s)) = Inl e
       \<longrightarrow> fst (get_coordinates float eng points s) = Inl e)
   \<and> (\<forall>text. fst (eng (v_out_ascii points) (world s)) = Inr text
            \<and> (\<forall>line \<in> set (splitlines text).
                  \<forall>f \<in> set (take 2 (split CHR '','' line)). float f \<noteq> None)
          \<longrightarrow> fst (get_coordinates float eng points s)
                = Inr (map (\<lambda>line. map (\<lambda>f. the (float f)) (take 2 (split CHR '','' line)))
                         (splitlines text)))
   \<and> (\<forall>text before line after accepted f rest.
          fst (eng (v_out_ascii points) (world s)) = Inr text
          \<and> splitlines text = before @ line # after
          \<and> (\<forall>l \<in> set before. \<forall>g \<in> set (take 2 (split CHR '','' l)). float g \<noteq> None)
          \<and> take 2 (split CHR '','' line) = accepted @ f # rest
          \<and> (\<forall>g \<in> set accepted. float g \<noteq> None)
          \<and> float f = None
          \<longrightarrow> fst (get_coordinates float eng points s) = Inl (ValueError f))
   \<and> (\<forall>eng' points' s'.
          fst (eng' (v_out_ascii points') (world s')) = fst (eng (v_out_ascii points) (world s))
          \<longrightarrow> fst (get_coordinates float eng' points' s')
                = fst (get_coordinates float eng points s))"
proof -
  have raises: "\<forall>e. fst (eng (v_out_ascii points) (world s)) = Inl e
       \<longrightarrow> fst (get_coordinates float eng points s) = Inl e"
    by (simp add: get_coordinates_fst)
  have accepts: "\<forall>text. fst (eng (v_out_ascii points) (world s)) = Inr text
            \<and> (\<forall>line \<in> set (splitlines text).
                  \<forall>f \<in> set (take 2 (split CHR '','' line)). float f \<noteq> None)
          \<longrightarrow> fst (get_coordinates float eng points s)
                = Inr (map (\<lambda>line. map (\<lambda>f. the (float f)) (take 2 (split CHR '','' line)))
                         (splitlines text))"
  proof (intro allI impI, elim conjE)
    fix "text"
    assume out: "fst (eng (v_out_ascii points) (world s)) = Inr text"
      and ok: "\<forall>line \<in> set (splitlines text).
                  \<forall>f \<in> set (take 2 (split CHR '','' line)). float f \<noteq> None"
    have "comprehension (point_coordinates float) (splitlines text)
        = Inr (map (\<lambda>line. map (\<lambda>f. the (float f)) (take 2 (split CHR '','' line)))
                 (splitlines text))"
    proof (rule comprehension_map)
      fix line
      assume "line \<in> set (splitlines text)"
      with ok have "\<forall>f \<in> set (take 2 (split CHR '','' line)). float f \<noteq> None" by simp
      then show "point_coordinates float line
          = Inr (map (\<lambda>f. the (float f)) (take 2 (split CHR '','' line)))"
        by (rule point_coordinates_accepts)
    qed
    with out show "fst (get_coordinates float eng points s)
        = Inr (map (\<lambda>line. map (\<lambda>f. the (float f)) (take 2 (split CHR '','' line)))
                 (splitlines text))"
      by (simp add: get_coordinates_fst)
  qed
  have rejects: "\<forall>text before line after accepted f rest.
          fst (eng (v_out_ascii points) (world s)) = Inr text
          \<and> splitlines text = before @ line # after
          \<and> (\<forall>l \<in> set before. \<forall>g \<in> set (take 2 (split CHR '','' l)). float g \<noteq> None)
          \<and> take 2 (split CHR '','' line) = accepted @ f # rest
          \<and> (\<forall>g \<in> set accepted. float g \<noteq> None)
          \<and> float f = None
          \<longrightarrow> fst (get_coordinates float eng points s) = Inl (ValueError f)"
  proof (intro allI impI, elim conjE)
    fix "text" before line after accepted f rest
    assume out: "fst (eng (v_out_ascii points) (world s)) = Inr text"
      and lines: "splitlines text = before @ line # after"
      and earlier: "\<forall>l \<in> set before. \<forall>g \<in> set (take 2 (split CHR '','' l)). float g \<noteq> None"
      and fields: "take 2 (split CHR '','' line) = accepted @ f # rest"
      and accepted: "\<forall>g \<in> set accepted. float g \<noteq> None"
      and rejected: "float f = None"
    have "comprehension (point_coordinates float) (before @ line # after) = Inl (ValueError f)"
    proof (rule comprehension_first_fail)
      fix l
      assume "l \<in> set before"
      with earlier have "\<forall>g \<in> set (take 2 (split CHR '','' l)). float g \<noteq> None" by simp
      from point_coordinates_accepts [OF this]
      show "\<exists>v. point_coordinates float l = Inr v" by simp
    next
      from fields accepted rejected
      show "point_coordinates float line = Inl (ValueError f)"
        by (rule point_coordinates_rejects)
    qed
    with out lines show "fst (get_coordinates float eng points s) = Inl (ValueError f)"
      by (simp add: get_coordinates_fst)
  qed
  have same: "\<forall>eng' points' s'.
          fst (eng' (v_out_ascii points') (world s')) = fst (eng (v_out_ascii points) (world s))
          \<longrightarrow> fst (get_coordinates float eng' points' s')
                = fst (get_coordinates float eng points s)"
    by (simp add: get_coordinates_fst)
  from raises accepts rejects same show ?thesis by (intro conjI)
qed

theorem get_coordinates_contract_witness:
  "fst (layers_engine (v_out_ascii ''lagoon_points'') (world sample_session))
     = Inr ''1,2,7\<newline>30,40,8\<newline>''
   \<and> splitlines ''1,2,7\<newline>30,40,8\<newline>'' = [''1,2,7'', ''30,40,8'']
   \<and> take 2 (split CHR '','' ''1,2,7'') = [''1'', ''2'']
   \<and> take 2 (split CHR '','' ''30,40,8'') = [''30'', ''40'']
   \<and> fst (get_coordinates whole_number layers_engine ''lagoon_points'' sample_session)
       = Inr [[1, 2], [30, 40]]
   \<and> fst (layers_engine (v_out_ascii ''bad_points'') (world sample_session))
       = Inr ''x,2,7\<newline>''
   \<and> take 2 (split CHR '','' ''x,2,7'') = [''x'', ''2'']
   \<and> whole_number ''x'' = None
   \<and> fst (get_coordinates whole_number layers_engine ''bad_points'' sample_session)
       = Inl (ValueError ''x'')
   \<and> fst (layers_engine (v_out_ascii ''missing_points'') (world sample_session))
       = Inl (CalledModuleError ''v.out.ascii'')
   \<and> fst (get_coordinates whole_number layers_engine ''missing_points'' sample_session)
       = Inl (CalledModuleError ''v.out.ascii'')
   \<and> fst (get_coordinates whole_number layers_engine ''lagoon_copy'' sample_session)
       = fst (get_coordinates whole_number layers_engine ''lagoon_points'' sample_session)"
proof -
  note good = get_coordinates_contract
      [where eng = layers_engine and points = "''lagoon_points''" and s = sample_session
         and float = whole_number]
  note bad = get_coordinates_contract
      [where eng = layers_engine and points = "''bad_points''" and s = sample_session
         and float = whole_number]
  note missing = get_coordinates_contract
      [where eng = layers_engine and points = "''missing_points''" and s = sample_session
         and float = whole_number]
  have 1: "fst (layers_engine (v_out_ascii ''lagoon_points'') (world sample_session))
     = Inr ''1,2,7\<newline>30,40,8\<newline>''"
    by (simp add: sample_text sample_points_def)
  have 2: "splitlines ''1,2,7\<newline>30,40,8\<newline>'' = [''1,2,7'', ''30,40,8'']"
    using sample_lines by (simp add: sample_points_def)
  have 3: "take 2 (split CHR '','' ''1,2,7'') = [''1'', ''2'']"
    and 4: "take 2 (split CHR '','' ''30,40,8'') = [''30'', ''40'']"
    by (simp_all add: sample_fields)
  have accepted: "\<forall>line \<in> set (splitlines ''1,2,7\<newline>30,40,8\<newline>'').
      \<forall>f \<in> set (take 2 (split CHR '','' line)). whole_number f \<noteq> None"
    by (simp add: 2 3 4 sample_numbers)
  note accepts = good [THEN conjunct2, THEN conjunct1, rule_format]
  from accepts [OF conjI, OF 1 accepted]
  have 5: "fst (get_coordinates whole_number layers_engine ''lagoon_points'' sample_session)
       = Inr [[1, 2], [30, 40]]"
    by (simp add: 2 3 4 sample_numbers)
  have 6: "fst (layers_engine (v_out_ascii ''bad_points'') (world sample_session))
       = Inr ''x,2,7\<newline>''"
    by (simp add: layers_engine_def v_out_ascii_def sample_session_def)
  have bad_lines: "splitlines ''x,2,7\<newline>'' = [] @ ''x,2,7'' # []"
    by (simp add: splitlines_def linebreak_def)
  have 7: "take 2 (split CHR '','' ''x,2,7'') = [''x'', ''2'']"
    by (simp add: split_def)
  have 8: "whole_number ''x'' = None"
    by (simp add: whole_number_def)
  note rejects = bad [THEN conjunct2, THEN conjunct2, THEN conjunct1, rule_format]
  from rejects [of "''x,2,7\<newline>''" "[]" "''x,2,7''" "[]" "[]" "''x''" "[''2'']"]
    6 bad_lines 7 8
  have 9: "fst (get_coordinates whole_number layers_engine ''bad_points'' sample_session)
       = Inl (ValueError ''x'')"
    by simp
  have 10: "fst (layers_engine (v_out_ascii ''missing_points'') (world sample_session))
       = Inl (CalledModuleError ''v.out.ascii'')"
    by (simp add: sample_missing)
  note raises = missing [THEN conjunct1, rule_format]
  from raises [OF 10]
  have 11: "fst (get_coordinates whole_number layers_engine ''missing_points'' sample_session)
       = Inl (CalledModuleError ''v.out.ascii'')" .
  have copy: "fst (layers_engine (v_out_ascii ''lagoon_copy'') (world sample_session))
       = fst (layers_engine (v_out_ascii ''lagoon_points'') (world sample_session))"
    by (simp add: sample_text sample_copy)
  note same = good [THEN conjunct2, THEN conjunct2, THEN conjunct2, rule_format]
  from same [where eng' = layers_engine and points' = "''lagoon_copy''"
               and s' = sample_session, OF copy]
  have 12: "fst (get_coordinates whole_number layers_engine ''lagoon_copy'' sample_session)
       = fst (get_coordinates whole_number layers_engine ''lagoon_points'' sample_session)" .
  from 1 2 3 4 5 6 7 8 9 10 11 12 show ?thesis by (intro conjI)
qed

section \<open>Global state\<close>

text \<open>
  C7, as stated, fails on the set-up cell: it changes \<^verbatim>\<open>sys.path\<close>, which belongs to the
  interpreter, and the import in the next cell fails without the change and succeeds with
  it.
\<close>

theorem path_cell_counterexample:
  "snd (path_cell sample_check_output []) = [''/usr/lib/grass/etc/python'']
   \<and> import_cell sample_has_grass [] = Inl (ModuleNotFoundError ''grass'')
   \<and> import_cell sample_has_grass (snd (path_cell sample_check_output [])) = Inr ()"
proof -
  have "sample_check_output [''grass'', ''--config'', ''python_path'']
      = Inr ''/usr/lib/grass/etc/python\<newline>''"
    by (simp add: sample_check_output_def)
  then have "path_cell sample_check_output [] = (Inr (), [''/usr/lib/grass/etc/python''])"
    using sample_path by (simp add: path_cell_returns)
  then show ?thesis
    by (simp add: import_cell_def sample_has_grass_def)
qed

text \<open>
  C7, amended. The set-up cell changes the interpreter's module search path: when
  \<^verbatim>\<open>grass --config python_path\<close> prints \<open>out\<close>, it appends \<open>strip out\<close> to \<^verbatim>\<open>sys.path\<close>,
  and the import of the next cell succeeds if the package is there; when the subprocess
  raises, \<^verbatim>\<open>sys.path\<close> stays as it was. The state of the engine's session (mask, region,
  database) is changed by nothing but the tools invoked: after a script function, the
  registering cell or a sequence of invocations, it is what the invocations made, in
  order, have made of it.
\<close>

theorem global_state_changes:
  "(\<forall>out. check_output [''grass'', ''--config'', ''python_path''] = Inr out
      \<longrightarrow> path_cell check_output sys_path = (Inr (), sys_path @ [strip out])
          \<and> (has_grass (strip out)
               \<longrightarrow> import_cell has_grass (snd (path_cell check_output sys_path)) = Inr ()))
   \<and> (\<forall>e. check_output [''grass'', ''--config'', ''python_path''] = Inl e
          \<longrightarrow> path_cell check_output sys_path = (Inl e, sys_path))
   \<and> world (snd (myanalysis_pcurvature eng elevation s))
       = foldl (\<lambda>w call. snd (eng call w)) (world s)
           (drop (length (log s)) (log (snd (myanalysis_pcurvature eng elevation s))))
   \<and> world (snd (myanalysis float eng elevation points s))
       = foldl (\<lambda>w call. snd (eng call w)) (world s)
           (drop (length (log s)) (log (snd (myanalysis float eng elevation points s))))
   \<and> world (snd (register_cell names_of eng s))
       = foldl (\<lambda>w call. snd (eng call w)) (world s)
           (drop (length (log s)) (log (snd (register_cell names_of eng s))))
   \<and> world (snd (run_all eng calls s))
       = foldl (\<lambda>w call. snd (eng call w)) (world s)
           (drop (length (log s)) (log (snd (run_all eng calls s))))"
proof -
  have p: "path_cell check_output sys_path = (Inr (), sys_path @ [strip out])
          \<and> (has_grass (strip out)
               \<longrightarrow> import_cell has_grass (snd (path_cell check_output sys_path)) = Inr ())"
    if "check_output [''grass'', ''--config'', ''python_path''] = Inr out" for out
    using that by (simp add: path_cell_returns import_cell_def)
  have a: "world (snd (myanalysis_pcurvature eng elevation s))
       = foldl (\<lambda>w call. snd (eng call w)) (world s)
           (drop (length (log s)) (log (snd (myanalysis_pcurvature eng elevation s))))"
    by (simp add: myanalysis_pcurvature_world myanalysis_pcurvature_log)
  have b: "world (snd (myanalysis float eng elevation points s))
       = foldl (\<lambda>w call. snd (eng call w)) (world s)
           (drop (length (log s)) (log (snd (myanalysis float eng elevation points s))))"
    using myanalysis_world [of float eng elevation points s] by auto
  have c: "world (snd (register_cell names_of eng s))
       = foldl (\<lambda>w call. snd (eng call w)) (world s)
           (drop (length (log s)) (log (snd (register_cell names_of eng s))))"
    using register_cell_world [of names_of eng s] by auto
  have d: "world (snd (run_all eng calls s))
       = foldl (\<lambda>w call. snd (eng call w)) (world s)
           (drop (length (log s)) (log (snd (run_all eng calls s))))"
    using run_all_world [of eng calls s] by auto
  from p a b c d path_cell_raises [of check_output _ sys_path] show ?thesis by blast
qed

theorem global_state_changes_witness:
  "sample_check_output [''grass'', ''--config'', ''python_path'']
     = Inr ''/usr/lib/grass/etc/python\<newline>''
   \<and> sample_has_grass (strip ''/usr/lib/grass/etc/python\<newline>'')
   \<and> path_cell sample_check_output [''/usr/lib/python3'']
       = (Inr (), [''/usr/lib/python3'', ''/usr/lib/grass/etc/python''])
   \<and> import_cell sample_has_grass (snd (path_cell sample_check_output [''/usr/lib/python3'']))
       = Inr ()
   \<and> no_grass [''grass'', ''--config'', ''python_path''] = Inl (FileNotFoundError ''grass'')
   \<and> path_cell no_grass [''/usr/lib/python3'']
       = (Inl (FileNotFoundError ''grass''), [''/usr/lib/python3''])"
proof -
  have o: "sample_check_output [''grass'', ''--config'', ''python_path'']
     = Inr ''/usr/lib/grass/etc/python\<newline>''"
    by (simp add: sample_check_output_def)
  have h: "sample_has_grass (strip ''/usr/lib/grass/etc/python\<newline>'')"
    unfolding sample_path by (simp add: sample_has_grass_def)
  have n: "no_grass [''grass'', ''--config'', ''python_path''] = Inl (FileNotFoundError ''grass'')"
    by (simp add: no_grass_def)
  from o h
    global_state_changes [where check_output = sample_check_output
      and sys_path = "[''/usr/lib/python3'']" and has_grass = sample_has_grass]
  have 1: "path_cell sample_check_output [''/usr/lib/python3'']
       = (Inr (), [''/usr/lib/python3''] @ [strip ''/usr/lib/grass/etc/python\<newline>''])"
    and 2: "import_cell sample_has_grass
              (snd (path_cell sample_check_output [''/usr/lib/python3''])) = Inr ()"
    by (blast+)
  from n global_state_changes [where check_output = no_grass
      and sys_path = "[''/usr/lib/python3'']"]
  have 3: "path_cell no_grass [''/usr/lib/python3'']
       = (Inl (FileNotFoundError ''grass''), [''/usr/lib/python3''])"
    by blast
  from 1 have p: "path_cell sample_check_output [''/usr/lib/python3'']
       = (Inr (), [''/usr/lib/python3'', ''/usr/lib/grass/etc/python''])"
    by (simp add: sample_path)
  from o h n p 2 3 show ?thesis by (intro conjI)
qed

section \<open>The order of the datasets\<close>

lemma inputs_exist_append:
  "inputs_exist known (pre @ post)
     \<longleftrightarrow> inputs_exist known pre \<and> inputs_exist (concat (map writes (rev pre)) @ known) post"
  by (induction pre arbitrary: known) auto

text \<open>
  What \<open>inputs_exist\<close> checks: each invocation reads only names that were known at the
  start or that an earlier invocation of the sequence created.
\<close>

lemma inputs_exist_reads:
  assumes "inputs_exist known (pre @ call # post)"
  shows "set (reads call) \<subseteq> set known \<union> set (concat (map writes pre))"
  using assms by (auto simp: inputs_exist_append list_all_iff)

lemma writes_before_mask:
  "concat (map writes (before_mask xy)) =
     [''lagoons'', ''elevation'', ''ortho'', ''accumulation'', ''drainage'', ''drain'',
      ''stream_points'', ''basin_15'']"
  by (simp add: before_mask_def sh_def gs_run_def gs_parse_def gj_def v_extract_def
        r_water_outlet_def writes_def datasets_def output_keys_def names_of_arg_def)

lemma writes_masked:
  "concat (map writes (masked maps)) = [''dx'', ''dy'', ''depth'', ''depth'']"
  by (simp add: masked_def r_sim_water_def t_create_def list_depth_def t_register_def gs_run_def
        gj_def writes_def datasets_def output_keys_def names_of_arg_def)

lemma writes_after_mask: "concat (map writes after_mask) = []"
  by (simp add: after_mask_def gs_run_def gj_def writes_def datasets_def output_keys_def
        names_of_arg_def)

lemma writes_r_mask: "writes r_mask = []" "writes r_mask_remove = []"
  by (simp_all add: r_mask_def r_mask_remove_def gs_run_def writes_def datasets_def
        output_keys_def)

lemma writes_checkpoint:
  "concat (map writes (getting_started_checkpoint xy maps))
     = [''lagoons'', ''elevation'', ''ortho'', ''accumulation'', ''drainage'', ''drain'',
        ''stream_points'', ''basin_15'', ''dx'', ''dy'', ''depth'', ''depth'']"
  by (simp add: getting_started_checkpoint_def writes_before_mask writes_masked writes_r_mask
        writes_after_mask)

lemma reads_r_water_outlet: "reads (r_water_outlet xy) = [''direction'']"
  by (simp add: r_water_outlet_def gs_run_def reads_def datasets_def input_keys_def
        names_of_arg_def)

lemma reads_v_extract: "reads v_extract = [''streams'']"
  by (simp add: v_extract_def gs_run_def reads_def datasets_def input_keys_def names_of_arg_def)

lemma before_mask_split:
  "\<exists>pre mid post. before_mask xy = pre @ v_extract # mid @ r_water_outlet xy # post"
proof -
  have "before_mask xy =
      take 29 (before_mask xy) @ v_extract # take 5 (drop 30 (before_mask xy))
        @ r_water_outlet xy # drop 36 (before_mask xy)"
    by (simp add: before_mask_def)
  then show ?thesis by blast
qed

text \<open>
  C1 fails on the checkpoint notebook, whatever the values known only at run time:
  \<^verbatim>\<open>r.water.outlet\<close> reads the raster \<^verbatim>\<open>direction\<close> and \<^verbatim>\<open>v.extract\<close> reads the vector
  \<^verbatim>\<open>streams\<close>, and no invocation of the notebook creates a dataset of either name
  (\<^verbatim>\<open>r.watershed\<close> was asked for \<^verbatim>\<open>drainage\<close>), so the sequence does not have the ordering.
\<close>

theorem checkpoint_inputs_missing:
  "\<not> inputs_exist [] (getting_started_checkpoint xy maps)
   \<and> r_water_outlet xy \<in> set (getting_started_checkpoint xy maps)
   \<and> reads (r_water_outlet xy) = [''direction'']
   \<and> ''direction'' \<notin> set (concat (map writes (getting_started_checkpoint xy maps)))
   \<and> v_extract \<in> set (getting_started_checkpoint xy maps)
   \<and> reads v_extract = [''streams'']
   \<and> ''streams'' \<notin> set (concat (map writes (getting_started_checkpoint xy maps)))"
proof -
  let ?seq = "getting_started_checkpoint xy maps :: 'a invocation list"
  obtain pre mid post where
    b: "before_mask xy = pre @ v_extract # mid @ r_water_outlet xy # post"
    using before_mask_split by blast
  then have split: "?seq = (pre @ v_extract # mid) @ r_water_outlet xy
      # (post @ r_mask # masked maps @ r_mask_remove # after_mask)"
    by (simp add: getting_started_checkpoint_def)
  have mem: "r_water_outlet xy \<in> set ?seq" "v_extract \<in> set ?seq"
    using b by (simp_all add: getting_started_checkpoint_def)
  have never: "''direction'' \<notin> set (concat (map writes ?seq))"
    "''streams'' \<notin> set (concat (map writes ?seq))"
    by (simp_all add: writes_checkpoint)
  have "\<not> inputs_exist [] ?seq"
  proof
    assume "inputs_exist [] ?seq"
    then have "inputs_exist []
        ((pre @ v_extract # mid) @ r_water_outlet xy
          # (post @ r_mask # masked maps @ r_mask_remove # after_mask))"
      using split by simp
    from inputs_exist_reads [OF this]
    have "''direction'' \<in> set (concat (map writes (pre @ v_extract # mid)))"
      by (simp add: reads_r_water_outlet)
    then have "''direction'' \<in> set (concat (map writes ?seq))"
      using split by auto
    with never show False by simp
  qed
  with mem never show ?thesis
    by (simp add: reads_r_water_outlet reads_v_extract)
qed

text \<open>The notebook \<^verbatim>\<open>01_Getting_Started.ipynb\<close> has the ordering.\<close>

lemma getting_started_ordering: "inputs_exist [] getting_started"
  by (simp add: getting_started_def sh_def gs_run_def gj_def reads_def writes_def datasets_def
        input_keys_def output_keys_def names_of_arg_def)

section \<open>The raster mask\<close>













text \<open>
  Runs. An invocation is made in the session that the invocations before it have left:
  running a sequence is running a first part of it and then, unless that raised, the
  rest. So the state in which the invocation at position \<open>i\<close> starts is the one in which
  the run of the first \<open>i\<close> invocations ends.
\<close>

lemma run_all_append:
  "run_all eng (first @ rest) s =
     (case run_all eng first s of
        (Inl e, s') \<Rightarrow> (Inl e, s')
      | (Inr u, s') \<Rightarrow> run_all eng rest s')"
  by (induction first arbitrary: s) (simp_all split: prod.splits sum.splits)







end
